theory Spec2Isabelle
  imports Main "HOL-Library.Word"
begin

section \<open>The access-point lifecycle manager of \<^verbatim>\<open>worker/lib/workers/nm.ts\<close>\<close>

text \<open>
  The development embeds the classes \<^verbatim>\<open>Teardown\<close> and \<^verbatim>\<open>NetworkManager\<close> of
  \<^verbatim>\<open>src/worker/lib/workers/nm.ts\<close>.  Every \<^verbatim>\<open>await\<close> of the source is a step of a state
  and error passing computation; a rejected promise (a \<^verbatim>\<open>throw\<close>) is the value \<open>Inl\<close>.
\<close>

subsection \<open>Strings, object paths and JavaScript values\<close>

text \<open>
  A JavaScript string is a sequence of UTF-16 code units: \<^verbatim>\<open>str.length\<close> counts them and
  \<^verbatim>\<open>str.charCodeAt(i)\<close> reads one as a number below 65536.  Text supplied by the caller
  (SSID, PSK, interface names, random identifiers) has this type; the literals of the
  program (object keys, D-Bus signatures, error messages) are HOL strings, moved into the
  JavaScript type by \<open>js\<close> where they are used as values.
\<close>

type_synonym jsstring = "16 word list"

definition js :: "string \<Rightarrow> jsstring" where
  "js s = map (\<lambda>c. of_nat (of_char c)) s"

text \<open>
  \<^verbatim>\<open>type ActiveConnection = string; type Connection = ActiveConnection\<close>: references are
  D-Bus object paths.  The fixed paths the source names are constructors; a path handed out
  by the service is \<open>Profile n\<close> (a child of the settings object), \<open>Active n\<close> (a child of the
  active-connection object) or \<open>Device iface\<close>.
\<close>

datatype objpath =
    Settings_path            \<comment> \<open>\<^verbatim>\<open>/org/freedesktop/NetworkManager/Settings\<close>\<close>
  | Manager_path             \<comment> \<open>\<^verbatim>\<open>/org/freedesktop/NetworkManager\<close>\<close>
  | ActiveConnection_path    \<comment> \<open>\<^verbatim>\<open>/org/freedesktop/NetworkManager/ActiveConnection\<close>\<close>
  | Root_path                \<comment> \<open>\<^verbatim>\<open>/\<close>\<close>
  | Profile nat
  | Active nat
  | Device jsstring

type_synonym Connection = objpath
type_synonym ActiveConnection = objpath

datatype jsval =
    JString jsstring
  | JBool bool
  | JArray "nat list"        \<comment> \<open>\<^verbatim>\<open>Array<number>\<close>\<close>
  | JUndefined

text \<open>
  A settings object is a JavaScript object of objects; key order is that of the literal.
  \<open>Plain v\<close> is a bare value, \<open>Variant sig v\<close> is \<^verbatim>\<open>new dbus.Variant(sig, v)\<close>.
\<close>

datatype field = Plain jsval | Variant string jsval

type_synonym settings_section = "(string \<times> field) list"
type_synonym descriptor = "(string \<times> settings_section) list"

subsection \<open>Errors, signals and the process\<close>

datatype bus_call =
    GetProxyObject objpath
  | AddConnectionUnsaved descriptor
  | Delete objpath
  | GetDeviceByIpIface jsstring
  | ActivateConnection objpath objpath objpath
  | DeactivateConnection objpath
  | Disconnect

datatype error =
    Error string             \<comment> \<open>\<^verbatim>\<open>throw new Error(msg)\<close>\<close>
  | TypeError string         \<comment> \<open>raised by the runtime\<close>
  | DBusError bus_call       \<comment> \<open>the bus rejected this request\<close>

datatype signal = SIGINT | SIGTERM

text \<open>\<^verbatim>\<open>os.constants.signals\<close> on Linux.\<close>

fun signals :: "signal \<Rightarrow> nat" where
  "signals SIGINT = 2"
| "signals SIGTERM = 15"

text \<open>
  The only function the source registers as a signal listener is the method
  \<^verbatim>\<open>NetworkManager.prototype.teardown\<close>; the receiver of a call is either the manager
  (a method call \<^verbatim>\<open>nm.teardown()\<close>) or the \<^verbatim>\<open>process\<close> object (a listener called by the
  event emitter, which passes itself as \<^verbatim>\<open>this\<close>).
\<close>

datatype listener = Teardown_method

datatype receiver = This_manager | This_process

subsection \<open>The state\<close>

text \<open>
  \<^verbatim>\<open>Leviathan.Options['network']\<close> is declared outside the file; the source reads
  \<^verbatim>\<open>options.wired\<close> and \<^verbatim>\<open>options.wireless\<close>, tests them against \<^verbatim>\<open>null\<close>, passes them to
  \<^verbatim>\<open>getDevice(iface: string)\<close> and returns them as \<^verbatim>\<open>Promise<string>\<close>.
\<close>

record network_options =
  options_wired :: "jsstring option"
  options_wireless :: "jsstring option"

text \<open>
  The function held by a \<^verbatim>\<open>Teardown\<close>: the initial \<^verbatim>\<open>() => {}\<close>, or the closure registered
  by \<^verbatim>\<open>add*Connection\<close>, which captures \<^verbatim>\<open>activeConn\<close> and \<^verbatim>\<open>conn\<close>.
\<close>

datatype action = Noop | Reversal ActiveConnection Connection

datatype mode = Wired | Wireless

text \<open>
  One record holds the manager (\<open>options\<close>, \<open>teardowns_*\<close>), the bus client and the service
  behind it (\<open>profiles\<close>, \<open>actives\<close>, \<open>next_path\<close>, \<open>connected\<close>), the environment
  (\<open>calls\<close>: every request sent over the bus, oldest first; \<open>faults\<close>: for each coming
  request whether the bus rejects it, none once the list is used up; \<open>random\<close>: the coming
  results of \<^verbatim>\<open>generateId\<close>) and the process (\<open>listeners_*\<close>, \<open>exit_code\<close>, \<open>console\<close>,
  \<open>unhandled\<close>: rejections of promises nobody awaits).
\<close>

record state =
  options :: "network_options option"
  teardowns_wired :: action
  teardowns_wireless :: action
  profiles :: "objpath list"
  actives :: "objpath list"
  next_path :: nat
  connected :: bool
  calls :: "bus_call list"
  faults :: "bool list"
  random :: "jsstring list"
  listeners_SIGINT :: "listener list"
  listeners_SIGTERM :: "listener list"
  exit_code :: "nat option"
  console :: "jsstring list"
  unhandled :: "error list"

type_synonym 'a promise = "state \<Rightarrow> (error + 'a) \<times> state"

definition resolve :: "'a \<Rightarrow> 'a promise" where
  "resolve x s = (Inr x, s)"

definition reject :: "error \<Rightarrow> 'a promise" where
  "reject e s = (Inl e, s)"

text \<open>\<^verbatim>\<open>const x = await m; k(x)\<close>: a rejection of \<open>m\<close> leaves the function at once.\<close>

definition await :: "'a promise \<Rightarrow> ('a \<Rightarrow> 'b promise) \<Rightarrow> 'b promise" where
  "await m k s = (case m s of (Inl e, s') \<Rightarrow> (Inl e, s') | (Inr x, s') \<Rightarrow> k x s')"

subsection \<open>The bus client and the service behind it\<close>

text \<open>
  The service is the environment of the program.  It is taken to be sequential and closed:
  between two requests of the manager nothing else changes it.  A request is appended to
  \<open>calls\<close> and consumes one entry of \<open>faults\<close>; the bus rejects it when that entry is
  \<open>True\<close>.  An accepted request has the effect the NetworkManager D-Bus interface documents,
  and is refused by the service itself when its object does not exist.
\<close>

definition rejects :: "state \<Rightarrow> bool" where
  "rejects s = (case faults s of [] \<Rightarrow> False | b # _ \<Rightarrow> b)"

definition send :: "bus_call \<Rightarrow> unit promise" where
  "send c s =
     (let s' = s\<lparr>calls := calls s @ [c], faults := tl (faults s)\<rparr>
      in if rejects s then (Inl (DBusError c), s') else (Inr (), s'))"

text \<open>\<^verbatim>\<open>ProxyObject.nodes\<close>: the children of the introspected object.\<close>

fun nodes :: "objpath \<Rightarrow> state \<Rightarrow> objpath list" where
  "nodes Settings_path s = profiles s"
| "nodes ActiveConnection_path s = actives s"
| "nodes _ s = []"

text \<open>\<^verbatim>\<open>await this.bus.getProxyObject(name, path)\<close>; the proxy is represented by its \<^verbatim>\<open>nodes\<close>.\<close>

definition getProxyObject :: "objpath \<Rightarrow> objpath list promise" where
  "getProxyObject path = await (send (GetProxyObject path)) (\<lambda>_ s. (Inr (nodes path s), s))"

definition Settings_AddConnectionUnsaved :: "descriptor \<Rightarrow> objpath promise" where
  "Settings_AddConnectionUnsaved connection =
     await (send (AddConnectionUnsaved connection))
       (\<lambda>_ s. (Inr (Profile (next_path s)),
                s\<lparr>profiles := profiles s @ [Profile (next_path s)],
                  next_path := Suc (next_path s)\<rparr>))"

definition Connection_Delete :: "objpath \<Rightarrow> unit promise" where
  "Connection_Delete reference =
     await (send (Delete reference))
       (\<lambda>_ s. if reference \<in> set (profiles s)
               then (Inr (), s\<lparr>profiles := removeAll reference (profiles s)\<rparr>)
               else (Inl (DBusError (Delete reference)), s))"

definition Manager_GetDeviceByIpIface :: "jsstring \<Rightarrow> objpath promise" where
  "Manager_GetDeviceByIpIface iface =
     await (send (GetDeviceByIpIface iface)) (\<lambda>_ s. (Inr (Device iface), s))"

definition Manager_ActivateConnection :: "objpath \<Rightarrow> objpath \<Rightarrow> objpath \<Rightarrow> objpath promise" where
  "Manager_ActivateConnection reference device specific =
     await (send (ActivateConnection reference device specific))
       (\<lambda>_ s. if reference \<in> set (profiles s)
               then (Inr (Active (next_path s)),
                     s\<lparr>actives := actives s @ [Active (next_path s)],
                       next_path := Suc (next_path s)\<rparr>)
               else (Inl (DBusError (ActivateConnection reference device specific)), s))"

definition Manager_DeactivateConnection :: "objpath \<Rightarrow> unit promise" where
  "Manager_DeactivateConnection reference =
     await (send (DeactivateConnection reference))
       (\<lambda>_ s. if reference \<in> set (actives s)
               then (Inr (), s\<lparr>actives := removeAll reference (actives s)\<rparr>)
               else (Inl (DBusError (DeactivateConnection reference)), s))"

text \<open>\<^verbatim>\<open>this.bus.disconnect()\<close> is synchronous.\<close>

definition disconnect :: "state \<Rightarrow> state" where
  "disconnect s = s\<lparr>connected := False, calls := calls s @ [Disconnect]\<rparr>"

subsection \<open>The descriptor builders\<close>

text \<open>
  \<^verbatim>\<open>for (var i = 0; i < str.length; ++i) { bytes.push(str.charCodeAt(i)); }\<close>
\<close>

function stringToArrayOfBytes_loop :: "jsstring \<Rightarrow> nat \<Rightarrow> nat list \<Rightarrow> nat list" where
  "stringToArrayOfBytes_loop str i bytes =
     (if i < length str
      then stringToArrayOfBytes_loop str (Suc i) (bytes @ [unat (str ! i)])
      else bytes)"
  by pat_completeness auto
termination
  by (relation "measure (\<lambda>(str, i, bytes). length str - i)") auto

definition stringToArrayOfBytes :: "jsstring \<Rightarrow> nat list" where
  "stringToArrayOfBytes str = stringToArrayOfBytes_loop str 0 []"

text \<open>
  \<^verbatim>\<open>Math.random().toString(36).substring(2, 10)\<close>: the next entry of \<open>random\<close>; the empty
  string (the result for \<^verbatim>\<open>Math.random() = 0\<close>) when none is left.
\<close>

definition generateId :: "state \<Rightarrow> jsstring \<times> state" where
  "generateId s = (case random s of [] \<Rightarrow> ([], s) | i # r \<Rightarrow> (i, s\<lparr>random := r\<rparr>))"

definition wiredTemplate :: "jsstring \<Rightarrow> state \<Rightarrow> descriptor \<times> state" where
  "wiredTemplate method s =
     (case generateId s of (i, s') \<Rightarrow>
        ([(''connection'',
             [(''id'', Plain (JString i)),
              (''type'', Plain (JString (js ''802-3-ethernet''))),
              (''autoconnect'', Plain (JBool False))]),
          (''ipv4'', [(''method'', Plain (JString method))]),
          (''ipv6'', [(''method'', Plain (JString (js ''ignore'')))])],
         s'))"

text \<open>
  The annotation \<^verbatim>\<open>psk: string\<close> is erased when the program runs, and an argument that is
  left out is \<^verbatim>\<open>undefined\<close>: \<open>psk\<close> is \<open>None\<close> then, and \<^verbatim>\<open>new dbus.Variant('s', undefined)\<close>
  stores it as it is.
\<close>

definition wirelessTemplate ::
  "jsstring \<Rightarrow> jsstring \<Rightarrow> jsstring option \<Rightarrow> state \<Rightarrow> descriptor \<times> state" where
  "wirelessTemplate method ssid psk s =
     (case generateId s of (i, s') \<Rightarrow>
        ([(''connection'',
             [(''id'', Variant ''s'' (JString i)),
              (''type'', Variant ''s'' (JString (js ''802-11-wireless''))),
              (''autoconnect'', Variant ''b'' (JBool False))]),
          (''802-11-wireless'',
             [(''mode'', Variant ''s'' (JString (js ''ap''))),
              (''ssid'', Variant ''ay'' (JArray (stringToArrayOfBytes ssid)))]),
          (''802-11-wireless-security'',
             [(''key-mgmt'', Variant ''s'' (JString (js ''wpa-psk''))),
              (''psk'', Variant ''s'' (case psk of None \<Rightarrow> JUndefined | Some p \<Rightarrow> JString p))]),
          (''ipv4'', [(''method'', Variant ''s'' (JString method))]),
          (''ipv6'', [(''method'', Variant ''s'' (JString (js ''ignore'')))])],
         s'))"

subsection \<open>The private methods\<close>

definition addConnection :: "descriptor \<Rightarrow> objpath promise" where
  "addConnection connection =
     await (getProxyObject Settings_path) (\<lambda>con. Settings_AddConnectionUnsaved connection)"

definition removeConnection :: "Connection \<Rightarrow> unit promise" where
  "removeConnection reference =
     await (getProxyObject Settings_path) (\<lambda>nodes.
       if reference \<in> set nodes
       then await (getProxyObject reference) (\<lambda>con. Connection_Delete reference)
       else resolve ())"

definition getDevice :: "jsstring \<Rightarrow> objpath promise" where
  "getDevice iface =
     await (getProxyObject Manager_path) (\<lambda>con. Manager_GetDeviceByIpIface iface)"

definition activateConnection :: "Connection \<Rightarrow> objpath \<Rightarrow> objpath promise" where
  "activateConnection reference device =
     await (getProxyObject Manager_path)
       (\<lambda>con. Manager_ActivateConnection reference device Root_path)"

definition deactivateConnection :: "ActiveConnection \<Rightarrow> unit promise" where
  "deactivateConnection reference =
     await (getProxyObject ActiveConnection_path) (\<lambda>nodes.
       if reference \<in> set nodes
       then await (getProxyObject Manager_path) (\<lambda>con. Manager_DeactivateConnection reference)
       else resolve ())"

subsection \<open>The class \<^verbatim>\<open>Teardown\<close>\<close>

text \<open>The two instances \<^verbatim>\<open>teardowns.wired\<close> and \<^verbatim>\<open>teardowns.wireless\<close>, named by their mode.\<close>

fun fn :: "mode \<Rightarrow> state \<Rightarrow> action" where
  "fn Wired s = teardowns_wired s"
| "fn Wireless s = teardowns_wireless s"

fun register :: "mode \<Rightarrow> action \<Rightarrow> state \<Rightarrow> state" where
  "register Wired f s = s\<lparr>teardowns_wired := f\<rparr>"
| "register Wireless f s = s\<lparr>teardowns_wireless := f\<rparr>"

text \<open>Calling the held function: \<^verbatim>\<open>this.fn()\<close>.\<close>

fun call :: "action \<Rightarrow> unit promise" where
  "call Noop = resolve ()"
| "call (Reversal activeConn conn) =
     await (deactivateConnection activeConn) (\<lambda>_. removeConnection conn)"

text \<open>\<^verbatim>\<open>async run() { await this.fn(); this.fn = () => {}; }\<close>\<close>

definition run :: "mode \<Rightarrow> unit promise" where
  "run m = await (\<lambda>s. call (fn m s) s) (\<lambda>_ s. (Inr (), register m Noop s))"

subsection \<open>The process object\<close>

fun listeners :: "signal \<Rightarrow> state \<Rightarrow> listener list" where
  "listeners SIGINT s = listeners_SIGINT s"
| "listeners SIGTERM s = listeners_SIGTERM s"

fun set_listeners :: "signal \<Rightarrow> listener list \<Rightarrow> state \<Rightarrow> state" where
  "set_listeners SIGINT ls s = s\<lparr>listeners_SIGINT := ls\<rparr>"
| "set_listeners SIGTERM ls s = s\<lparr>listeners_SIGTERM := ls\<rparr>"

text \<open>\<^verbatim>\<open>process.on(sig, f)\<close> adds \<open>f\<close> after the listeners already there.\<close>

definition on :: "signal \<Rightarrow> listener \<Rightarrow> state \<Rightarrow> state" where
  "on sig f s = set_listeners sig (listeners sig s @ [f]) s"

text \<open>
  \<^verbatim>\<open>process.removeListener(sig, f)\<close> takes the most recently added instance of \<open>f\<close> away.
  Its argument is the value of an expression, which may be \<^verbatim>\<open>undefined\<close> (\<open>None\<close>); the
  emitter then throws a \<^verbatim>\<open>TypeError\<close> (\<^verbatim>\<open>ERR_INVALID_ARG_TYPE\<close>).
\<close>

definition removeListener :: "signal \<Rightarrow> listener option \<Rightarrow> unit promise" where
  "removeListener sig f s =
     (case f of
        None \<Rightarrow> (Inl (TypeError ''The listener argument must be of type function''), s)
      | Some g \<Rightarrow> (Inr (), set_listeners sig (rev (remove1 g (rev (listeners sig s)))) s))"

text \<open>\<^verbatim>\<open>process.exit(code)\<close>; nothing of the program runs after it.\<close>

definition exit :: "nat \<Rightarrow> state \<Rightarrow> state" where
  "exit code s = s\<lparr>exit_code := Some code\<rparr>"

definition log :: "jsstring \<Rightarrow> state \<Rightarrow> state" where
  "log line s = s\<lparr>console := console s @ [line]\<rparr>"

subsection \<open>The class \<^verbatim>\<open>NetworkManager\<close>\<close>

text \<open>
  The constructor with the default \<^verbatim>\<open>bus\<close> and \<^verbatim>\<open>teardowns\<close>.  It passes the value of
  \<^verbatim>\<open>this.teardown\<close>, the method of the prototype, to \<^verbatim>\<open>process.on\<close>.
\<close>

definition NetworkManager :: "network_options option \<Rightarrow> state \<Rightarrow> state" where
  "NetworkManager opts s =
     on SIGTERM Teardown_method
       (on SIGINT Teardown_method
          (s\<lparr>options := opts, teardowns_wired := Noop, teardowns_wireless := Noop\<rparr>))"

text \<open>
  \<^verbatim>\<open>addWiredConnection(options: { nat?: boolean })\<close>; the argument object is given by its
  field, \<open>None\<close> when it is absent or \<^verbatim>\<open>null\<close>.
\<close>

definition addWiredConnection :: "bool option \<Rightarrow> jsstring promise" where
  "addWiredConnection nat_opt s =
     (case options s of
        None \<Rightarrow> reject (Error ''Wired AP unconfigured'') s
      | Some opts \<Rightarrow>
     (case options_wired opts of
        None \<Rightarrow> reject (Error ''Wired AP unconfigured'') s
      | Some iface \<Rightarrow>
     (case nat_opt of
        None \<Rightarrow> reject (Error ''Wired configuration incomplete'') s
      | Some nat_flag \<Rightarrow>
          await (run Wired) (\<lambda>_.
          await (\<lambda>s1. case wiredTemplate (js (if nat_flag then ''shared'' else ''link-local'')) s1
                       of (connection, s2) \<Rightarrow> addConnection connection s2) (\<lambda>conn.
          await (getDevice iface) (\<lambda>device.
          await (activateConnection conn device) (\<lambda>activeConn s3.
            (Inr iface,
             register Wired (Reversal activeConn conn)
               (log (js ''Wired AP; IFACE: '' @ iface) s3)))))) s)))"

text \<open>
  \<^verbatim>\<open>addWirelessConnection(options: { ssid?: string; psk?: string; nat?: boolean })\<close>
\<close>

definition addWirelessConnection ::
  "jsstring option \<Rightarrow> jsstring option \<Rightarrow> bool option \<Rightarrow> jsstring promise" where
  "addWirelessConnection ssid_opt psk_opt nat_opt s =
     (case options s of
        None \<Rightarrow> reject (Error ''Wireless AP unconfigured'') s
      | Some opts \<Rightarrow>
     (case options_wireless opts of
        None \<Rightarrow> reject (Error ''Wireless AP unconfigured'') s
      | Some iface \<Rightarrow>
     (case (ssid_opt, psk_opt, nat_opt) of
        (Some ssid, Some psk, Some nat_flag) \<Rightarrow>
          await (run Wireless) (\<lambda>_.
          await (\<lambda>s1. case wirelessTemplate (js (if nat_flag then ''shared'' else ''link-local''))
                            ssid (Some psk) s1
                       of (connection, s2) \<Rightarrow> addConnection connection s2) (\<lambda>conn.
          await (getDevice iface) (\<lambda>device.
          await (activateConnection conn device) (\<lambda>activeConn s3.
            (Inr iface,
             register Wireless (Reversal activeConn conn)
               (log (js ''Wireless AP; SSID: '' @ ssid @ js '' IFACE: '' @ iface) s3)))))) s
      | _ \<Rightarrow> reject (Error ''Wireless configuration incomplete'') s)))"

text \<open>
  \<^verbatim>\<open>teardown(signal?)\<close> reads \<^verbatim>\<open>this.teardown\<close>, \<^verbatim>\<open>this.teardowns\<close> and \<^verbatim>\<open>this.bus\<close>.  On the
  manager these are the method, the two \<^verbatim>\<open>Teardown\<close> objects and the bus client; the
  \<^verbatim>\<open>process\<close> object has none of the three properties.
\<close>

fun this_teardown :: "receiver \<Rightarrow> listener option" where
  "this_teardown This_manager = Some Teardown_method"
| "this_teardown This_process = None"

fun this_teardowns_run :: "receiver \<Rightarrow> mode \<Rightarrow> unit promise" where
  "this_teardowns_run This_manager m = run m"
| "this_teardowns_run This_process m =
     reject (TypeError ''Cannot read properties of undefined'')"

fun this_bus_disconnect :: "receiver \<Rightarrow> unit promise" where
  "this_bus_disconnect This_manager = (\<lambda>s. (Inr (), disconnect s))"
| "this_bus_disconnect This_process =
     reject (TypeError ''Cannot read properties of undefined'')"

definition teardown :: "receiver \<Rightarrow> signal option \<Rightarrow> unit promise" where
  "teardown this signal =
     await (removeListener SIGINT (this_teardown this)) (\<lambda>_.
     await (removeListener SIGTERM (this_teardown this)) (\<lambda>_.
     await (this_teardowns_run this Wired) (\<lambda>_.
     await (this_teardowns_run this Wireless) (\<lambda>_.
     await (this_bus_disconnect this) (\<lambda>_ s.
       if signal = Some SIGINT then (Inr (), exit (128 + signals SIGINT) s)
       else if signal = Some SIGTERM then (Inr (), exit (128 + signals SIGTERM) s)
       else (Inr (), s))))))"

text \<open>
  Delivery of a signal: the emitter calls every listener of the signal with \<^verbatim>\<open>this\<close> bound
  to \<^verbatim>\<open>process\<close> and the signal's name as argument.  Nobody awaits the promise an
  \<^verbatim>\<open>async\<close> listener returns; its rejection is recorded in \<open>unhandled\<close>.
\<close>

fun emit :: "listener list \<Rightarrow> signal \<Rightarrow> state \<Rightarrow> state" where
  "emit [] sig s = s"
| "emit (Teardown_method # ls) sig s =
     (if exit_code s \<noteq> None then s
      else case teardown This_process (Some sig) s of
             (Inl e, s') \<Rightarrow> emit ls sig (s'\<lparr>unhandled := unhandled s' @ [e]\<rparr>)
           | (Inr _, s') \<Rightarrow> emit ls sig s')"

definition deliver :: "signal \<Rightarrow> state \<Rightarrow> state" where
  "deliver sig s = emit (listeners sig s) sig s"

text \<open>A process that has just connected to the bus, before any manager is constructed.\<close>

definition boot :: "bool list \<Rightarrow> jsstring list \<Rightarrow> state" where
  "boot fs ids =
     \<lparr>options = None, teardowns_wired = Noop, teardowns_wireless = Noop,
      profiles = [], actives = [], next_path = 0, connected = True,
      calls = [], faults = fs, random = ids,
      listeners_SIGINT = [], listeners_SIGTERM = [],
      exit_code = None, console = [], unhandled = []\<rparr>"

subsection \<open>Notions used in the statements\<close>

text \<open>\<^verbatim>\<open>descriptor[sec][key]\<close>, \<open>None\<close> for \<^verbatim>\<open>undefined\<close>.\<close>

definition setting :: "descriptor \<Rightarrow> string \<Rightarrow> string \<Rightarrow> field option" where
  "setting d sec key = (case map_of d sec of None \<Rightarrow> None | Some fs \<Rightarrow> map_of fs key)"

text \<open>The requests sent over the bus between the states \<open>s\<close> and \<open>s'\<close>.\<close>

definition sent :: "state \<Rightarrow> state \<Rightarrow> bus_call list" where
  "sent s s' = drop (length (calls s)) (calls s')"

text \<open>The bus rejects no coming request.\<close>

definition quiet :: "state \<Rightarrow> bool" where
  "quiet s = (True \<notin> set (faults s))"

text \<open>
  \<open>bus_only s s'\<close>: the step from \<open>s\<close> to \<open>s'\<close> touched nothing but the bus and the service;
  \<open>effect P s s'\<close>: moreover every request it sent satisfies \<open>P\<close>, and each consumed one
  entry of \<open>faults\<close>.
\<close>

definition bus_only :: "state \<Rightarrow> state \<Rightarrow> bool" where
  "bus_only s s' =
     (options s' = options s \<and> teardowns_wired s' = teardowns_wired s
      \<and> teardowns_wireless s' = teardowns_wireless s \<and> connected s' = connected s
      \<and> random s' = random s
      \<and> listeners_SIGINT s' = listeners_SIGINT s \<and> listeners_SIGTERM s' = listeners_SIGTERM s
      \<and> exit_code s' = exit_code s \<and> console s' = console s \<and> unhandled s' = unhandled s)"

definition effect :: "(bus_call \<Rightarrow> bool) \<Rightarrow> state \<Rightarrow> state \<Rightarrow> bool" where
  "effect P s s' =
     (bus_only s s' \<and>
      (\<exists>new. calls s' = calls s @ new \<and> list_all P new
             \<and> faults s' = drop (length new) (faults s)))"

text \<open>
  \<open>requests P s s'\<close>: \<open>calls\<close> only grew from \<open>s\<close> to \<open>s'\<close>, and every request added
  satisfies \<open>P\<close>.
\<close>

definition requests :: "(bus_call \<Rightarrow> bool) \<Rightarrow> state \<Rightarrow> state \<Rightarrow> bool" where
  "requests P s s' = (calls s' = calls s @ sent s s' \<and> list_all P (sent s s'))"

text \<open>The requests that undo something: deleting a profile, deactivating a connection.\<close>

fun cleanup_call :: "bus_call \<Rightarrow> bool" where
  "cleanup_call (Delete r) = True"
| "cleanup_call (DeactivateConnection a) = True"
| "cleanup_call _ = False"

text \<open>
  A settings object carries the WPA-PSK block with the passphrase \<open>p\<close>.
\<close>

definition secured :: "jsstring \<Rightarrow> descriptor \<Rightarrow> bool" where
  "secured p d =
     (setting d ''802-11-wireless-security'' ''key-mgmt'' =
        Some (Variant ''s'' (JString (js ''wpa-psk'')))
      \<and> setting d ''802-11-wireless-security'' ''psk'' = Some (Variant ''s'' (JString p)))"

subsection \<open>The phases of the public methods\<close>

text \<open>
  The state in which \<^verbatim>\<open>teardown\<close>, called on the manager, has executed its two
  \<^verbatim>\<open>process.removeListener\<close> statements.
\<close>

definition deregistered :: "state \<Rightarrow> state" where
  "deregistered s =
     s\<lparr>listeners_SIGINT := rev (remove1 Teardown_method (rev (listeners_SIGINT s))),
       listeners_SIGTERM := rev (remove1 Teardown_method (rev (listeners_SIGTERM s)))\<rparr>"

text \<open>
  The statements of \<^verbatim>\<open>addWiredConnection\<close> and \<^verbatim>\<open>addWirelessConnection\<close> that follow
  \<^verbatim>\<open>await this.teardowns.<mode>.run()\<close>.  They are the same in both methods but for the
  mode \<open>m\<close>, the builder call \<open>t\<close>, the interface and the line printed; the lemmas
  \<open>addWiredConnection_steps\<close> and \<open>addWirelessConnection_steps\<close> state this.
\<close>

definition establish ::
  "mode \<Rightarrow> (state \<Rightarrow> descriptor \<times> state) \<Rightarrow> jsstring \<Rightarrow> jsstring \<Rightarrow> jsstring promise" where
  "establish m t iface line =
     await (\<lambda>s1. case t s1 of (connection, s2) \<Rightarrow> addConnection connection s2) (\<lambda>conn.
     await (getDevice iface) (\<lambda>device.
     await (activateConnection conn device) (\<lambda>activeConn s3.
       (Inr iface, register m (Reversal activeConn conn) (log line s3)))))"

text \<open>A builder call touches nothing but the source of random identifiers.\<close>

definition template_like :: "(state \<Rightarrow> descriptor \<times> state) \<Rightarrow> bool" where
  "template_like t = (\<forall>s. snd (t s) = s\<lparr>random := random (snd (t s))\<rparr>)"



subsection \<open>Example states\<close>

text \<open>
  A manager configured for \<^verbatim>\<open>eth0\<close> and \<^verbatim>\<open>wlan0\<close>; \<open>wired_up fs\<close> is the state after a
  successful \<^verbatim>\<open>addWiredConnection({nat: true})\<close> on a fresh process, \<open>both_up fs\<close> the state
  after a successful \<^verbatim>\<open>addWirelessConnection({ssid: 'myssid', psk: 'mypsk', nat: true})\<close> on
  top of it; \<open>fs\<close> tells which of the requests that follow the bus will reject.
\<close>

definition eth0_wlan0 :: "network_options option" where
  "eth0_wlan0 =
     Some \<lparr>options_wired = Some (js ''eth0''), options_wireless = Some (js ''wlan0'')\<rparr>"

definition wired_up :: "bool list \<Rightarrow> state" where
  "wired_up fs =
     snd (addWiredConnection (Some True)
            (NetworkManager eth0_wlan0 (boot (replicate 6 False @ fs) [])))"

definition both_up :: "bool list \<Rightarrow> state" where
  "both_up fs =
     snd (addWirelessConnection (Some (js ''myssid'')) (Some (js ''mypsk'')) (Some True)
            (wired_up (replicate 6 False @ fs)))"

text \<open>
  Managers whose first (\<open>add_failing\<close>), third (\<open>leaking\<close>) or sixth (\<open>wlan_failing\<close>)
  request the bus will reject; \<open>wlan_up\<close>: the state after a successful
  \<^verbatim>\<open>addWirelessConnection({ssid: 'myssid', psk: 'mypsk', nat: true})\<close> on a fresh process.
\<close>

definition add_failing :: state where
  "add_failing = NetworkManager eth0_wlan0 (boot [True] [])"

definition leaking :: state where
  "leaking = NetworkManager eth0_wlan0 (boot [False, False, True] [])"

definition wlan_failing :: state where
  "wlan_failing = NetworkManager eth0_wlan0 (boot [False, False, False, False, False, True] [])"


section \<open>Properties\<close>

subsection \<open>Effects of the operations\<close>

declare stringToArrayOfBytes_loop.simps [simp del]

lemma effect_refl: "effect P s s"
  by (simp add: effect_def bus_only_def)

lemma effect_trans:
  assumes "effect P s s1" "effect P s1 s2"
  shows "effect P s s2"
proof -
  from assms(1) obtain n1 where n1: "bus_only s s1" "calls s1 = calls s @ n1" "list_all P n1"
    "faults s1 = drop (length n1) (faults s)"
    unfolding effect_def by blast
  from assms(2) obtain n2 where n2: "bus_only s1 s2" "calls s2 = calls s1 @ n2" "list_all P n2"
    "faults s2 = drop (length n2) (faults s1)"
    unfolding effect_def by blast
  have "bus_only s s2"
    using n1(1) n2(1) by (simp add: bus_only_def)
  moreover have "calls s2 = calls s @ (n1 @ n2)"
    using n1(2) n2(2) by simp
  moreover have "list_all P (n1 @ n2)"
    using n1(3) n2(3) by simp
  moreover have "faults s2 = drop (length (n1 @ n2)) (faults s)"
    using n1(4) n2(4) by (simp add: add.commute)
  ultimately show ?thesis
    unfolding effect_def by blast
qed

lemma effect_send:
  assumes "send c s = (r, s')" "P c"
  shows "effect P s s'"
proof -
  have s': "s' = s\<lparr>calls := calls s @ [c], faults := tl (faults s)\<rparr>"
    using assms(1) by (auto simp: send_def Let_def split: if_splits)
  have "calls s' = calls s @ [c] \<and> list_all P [c] \<and> faults s' = drop (length [c]) (faults s)"
    using assms(2) by (simp add: s' drop_Suc)
  moreover have "bus_only s s'"
    by (simp add: s' bus_only_def)
  ultimately show ?thesis
    unfolding effect_def by blast
qed

lemma awaitE:
  assumes "await m k s = (r, s')"
  obtains (rejected) e where "m s = (Inl e, s')" "r = Inl e"
        | (resolved) x s1 where "m s = (Inr x, s1)" "k x s1 = (r, s')"
  using assms by (auto simp: await_def split: prod.splits sum.splits)

lemma await_resolved: "m s = (Inr x, s1) \<Longrightarrow> await m k s = k x s1"
  by (simp add: await_def)

lemma await_rejected: "m s = (Inl e, s1) \<Longrightarrow> await m k s = (Inl e, s1)"
  by (simp add: await_def)

lemma effect_quiet: "effect P s s' \<Longrightarrow> quiet s \<Longrightarrow> quiet s'"
  unfolding effect_def quiet_def by (auto dest: in_set_dropD)

lemma send_state:
  "send c s = (r, s') \<Longrightarrow> s' = s\<lparr>calls := calls s @ [c], faults := tl (faults s)\<rparr>"
  by (auto simp: send_def Let_def split: if_splits)

lemma send_result: "send c s = (r, s') \<Longrightarrow> r = Inr () \<or> r = Inl (DBusError c)"
  by (auto simp: send_def Let_def split: if_splits)

lemma send_answered:
  "\<not> rejects s \<Longrightarrow>
     send c s = (Inr (), s\<lparr>calls := calls s @ [c], faults := tl (faults s)\<rparr>)"
  by (simp add: send_def Let_def)

lemma quiet_answered: "quiet s \<Longrightarrow> \<not> rejects s"
  by (auto simp: quiet_def rejects_def split: list.splits)

lemma getProxyObject_effect:
  assumes "getProxyObject p s = (r, s')" "P (GetProxyObject p)"
  shows "effect P s s'"
  using assms unfolding getProxyObject_def
  by (elim awaitE) (auto dest: effect_send)

lemma getProxyObject_answered:
  assumes "\<not> rejects s"
  shows "getProxyObject p s =
           (Inr (nodes p s), s\<lparr>calls := calls s @ [GetProxyObject p], faults := tl (faults s)\<rparr>)"
proof -
  have "nodes p (s\<lparr>calls := calls s @ [GetProxyObject p], faults := tl (faults s)\<rparr>) = nodes p s"
    by (cases p) simp_all
  then show ?thesis
    using send_answered [OF assms, of "GetProxyObject p"]
    by (simp add: getProxyObject_def await_def)
qed

lemma quiet_step: "quiet s \<Longrightarrow> quiet (s\<lparr>calls := cs, faults := tl (faults s)\<rparr>)"
  by (cases "faults s") (auto simp: quiet_def)

lemma Connection_Delete_effect:
  assumes "Connection_Delete r s = (res, s')" "P (Delete r)"
  shows "effect P s s'"
  using assms unfolding Connection_Delete_def
  apply (elim awaitE)
   apply (auto dest: effect_send)[1]
  apply (drule (1) effect_send)
  apply (auto simp: effect_def bus_only_def split: if_splits)
  done

lemma removeConnection_effect:
  assumes "removeConnection r s = (res, s')"
    "P (GetProxyObject Settings_path)" "P (GetProxyObject r)" "P (Delete r)"
  shows "effect P s s'"
  using assms unfolding removeConnection_def
  apply (elim awaitE)
   apply (auto dest: getProxyObject_effect)[1]
  apply (drule (1) getProxyObject_effect)
  apply (auto simp: resolve_def split: if_splits elim!: awaitE
      dest: getProxyObject_effect Connection_Delete_effect effect_trans)
  done

lemmas unfold_bus = getProxyObject_def Connection_Delete_def Settings_AddConnectionUnsaved_def
  Manager_GetDeviceByIpIface_def Manager_ActivateConnection_def Manager_DeactivateConnection_def
  await_def send_def resolve_def reject_def Let_def

lemma removeConnection_service:
  assumes "removeConnection r s = (res, s')"
  shows "actives s' = actives s" "next_path s' = next_path s"
    "profiles s' = profiles s \<or> profiles s' = removeAll r (profiles s)"
    "res = Inr () \<Longrightarrow> r \<notin> set (profiles s')"
    "Delete r \<in> set (sent s s') \<Longrightarrow> r \<in> set (profiles s)"
  using assms
  by (auto simp: removeConnection_def unfold_bus sent_def split: if_splits)

lemma removeConnection_quiet:
  assumes "quiet s"
  shows "\<exists>s'. removeConnection r s = (Inr (), s') \<and> profiles s' = removeAll r (profiles s)
           \<and> sent s s' = (if r \<in> set (profiles s)
                then [GetProxyObject Settings_path, GetProxyObject r, Delete r]
                else [GetProxyObject Settings_path])"
  using assms quiet_answered [OF assms] quiet_answered [OF quiet_step [OF assms]]
     quiet_answered [OF quiet_step [OF quiet_step [OF assms]]]
  by (auto simp: removeConnection_def unfold_bus sent_def)

lemma deactivateConnection_service:
  assumes "deactivateConnection r s = (res, s')"
  shows "profiles s' = profiles s" "next_path s' = next_path s"
    "actives s' = actives s \<or> actives s' = removeAll r (actives s)"
    "res = Inr () \<Longrightarrow> r \<notin> set (actives s')"
    "DeactivateConnection r \<in> set (sent s s') \<Longrightarrow> r \<in> set (actives s)"
  using assms
  by (auto simp: deactivateConnection_def unfold_bus sent_def split: if_splits)

lemma deactivateConnection_quiet:
  assumes "quiet s"
  shows "\<exists>s'. deactivateConnection r s = (Inr (), s') \<and> actives s' = removeAll r (actives s)
           \<and> sent s s' = (if r \<in> set (actives s)
                then [GetProxyObject ActiveConnection_path, GetProxyObject Manager_path,
                      DeactivateConnection r]
                else [GetProxyObject ActiveConnection_path])"
  using assms quiet_answered [OF assms] quiet_answered [OF quiet_step [OF assms]]
     quiet_answered [OF quiet_step [OF quiet_step [OF assms]]]
  by (auto simp: deactivateConnection_def unfold_bus sent_def)

lemma addConnection_service:
  assumes "addConnection d s = (res, s')"
  shows "actives s' = actives s"
    "res = Inr c \<Longrightarrow> profiles s' = profiles s @ [c]"
    "res = Inl e \<Longrightarrow> profiles s' = profiles s"
    "set (profiles s) \<subseteq> set (profiles s')"
  using assms
  by (auto simp: addConnection_def unfold_bus split: if_splits)

lemma getDevice_service:
  assumes "getDevice iface s = (res, s')"
  shows "actives s' = actives s" "profiles s' = profiles s"
  using assms
  by (auto simp: getDevice_def unfold_bus split: if_splits)

lemma activateConnection_service:
  assumes "activateConnection c dev s = (res, s')"
  shows "profiles s' = profiles s"
    "res = Inr a \<Longrightarrow> actives s' = actives s @ [a]"
    "res = Inl e \<Longrightarrow> actives s' = actives s"
  using assms
  by (auto simp: activateConnection_def unfold_bus split: if_splits)

lemma effect_step:
  assumes "effect P s s1" "P c"
  shows "effect P s (s1\<lparr>calls := calls s1 @ [c], faults := tl (faults s1)\<rparr>)"
proof -
  have "effect P s1 (s1\<lparr>calls := calls s1 @ [c], faults := tl (faults s1)\<rparr>)"
    using assms(2) by (auto simp: effect_def bus_only_def drop_Suc intro!: exI [of _ "[c]"])
  with assms(1) show ?thesis by (rule effect_trans)
qed

lemma effect_service:
  assumes "effect P s s1"
  shows "effect P s (s1\<lparr>profiles := ps\<rparr>)" "effect P s (s1\<lparr>actives := as\<rparr>)"
    "effect P s (s1\<lparr>next_path := n\<rparr>)"
  using assms by (auto simp: effect_def bus_only_def)

lemmas effect_intros = effect_refl effect_step effect_service

lemma Settings_AddConnectionUnsaved_effect:
  assumes "Settings_AddConnectionUnsaved d s = (res, s')" "P (AddConnectionUnsaved d)"
  shows "effect P s s'"
  using assms
  by (auto simp: Settings_AddConnectionUnsaved_def await_def send_def Let_def
      split: if_splits intro!: effect_intros)

lemma addConnection_effect:
  assumes "addConnection d s = (res, s')"
    "P (GetProxyObject Settings_path)" "P (AddConnectionUnsaved d)"
  shows "effect P s s'"
  using assms unfolding addConnection_def
  by (elim awaitE)
     (blast intro: getProxyObject_effect Settings_AddConnectionUnsaved_effect effect_trans)+

lemma Manager_GetDeviceByIpIface_effect:
  assumes "Manager_GetDeviceByIpIface iface s = (res, s')" "P (GetDeviceByIpIface iface)"
  shows "effect P s s'"
  using assms
  by (auto simp: Manager_GetDeviceByIpIface_def await_def send_def Let_def
      split: if_splits intro!: effect_intros)

lemma getDevice_effect:
  assumes "getDevice iface s = (res, s')"
    "P (GetProxyObject Manager_path)" "P (GetDeviceByIpIface iface)"
  shows "effect P s s'"
  using assms unfolding getDevice_def
  by (elim awaitE)
     (blast intro: getProxyObject_effect Manager_GetDeviceByIpIface_effect effect_trans)+

lemma Manager_ActivateConnection_effect:
  assumes "Manager_ActivateConnection c dev sp s = (res, s')" "P (ActivateConnection c dev sp)"
  shows "effect P s s'"
  using assms
  by (auto simp: Manager_ActivateConnection_def await_def send_def Let_def
      split: if_splits intro!: effect_intros)

lemma activateConnection_effect:
  assumes "activateConnection c dev s = (res, s')"
    "P (GetProxyObject Manager_path)" "P (ActivateConnection c dev Root_path)"
  shows "effect P s s'"
  using assms unfolding activateConnection_def
  by (elim awaitE)
     (blast intro: getProxyObject_effect Manager_ActivateConnection_effect effect_trans)+

lemma Manager_DeactivateConnection_effect:
  assumes "Manager_DeactivateConnection a s = (res, s')" "P (DeactivateConnection a)"
  shows "effect P s s'"
  using assms
  by (auto simp: Manager_DeactivateConnection_def await_def send_def Let_def
      split: if_splits intro!: effect_intros)

lemma deactivateConnection_effect:
  assumes "deactivateConnection a s = (res, s')"
    "P (GetProxyObject ActiveConnection_path)" "P (GetProxyObject Manager_path)"
    "P (DeactivateConnection a)"
  shows "effect P s s'"
  using assms unfolding deactivateConnection_def
  apply (elim awaitE)
   apply (blast intro: getProxyObject_effect)
  apply (auto simp: resolve_def split: if_splits elim!: awaitE)
    apply (blast intro: getProxyObject_effect effect_trans)
   apply (blast intro: getProxyObject_effect Manager_DeactivateConnection_effect effect_trans)
  apply (blast intro: getProxyObject_effect)
  done

subsection \<open>Running a teardown\<close>

lemma call_effect:
  assumes "call act s = (res, s')"
    "\<And>p. P (GetProxyObject p)" "\<And>r. P (Delete r)" "\<And>a. P (DeactivateConnection a)"
  shows "effect P s s'"
proof (cases act)
  case Noop
  with assms(1) show ?thesis by (simp add: resolve_def effect_refl)
next
  case (Reversal a c)
  with assms(1) have "await (deactivateConnection a) (\<lambda>_. removeConnection c) s = (res, s')"
    by simp
  then show ?thesis
  proof (cases rule: awaitE)
    case (rejected e)
    then show ?thesis by (blast intro: deactivateConnection_effect assms)
  next
    case (resolved x s1)
    then have "effect P s s1" "effect P s1 s'"
      by (blast intro: deactivateConnection_effect removeConnection_effect assms)+
    then show ?thesis by (rule effect_trans)
  qed
qed

lemma call_bus_only: "call act s = (res, s') \<Longrightarrow> bus_only s s'"
  using call_effect [of act s res s' "\<lambda>_. True"] by (simp add: effect_def)



lemma call_quiet:
  assumes "quiet s"
  shows "\<exists>s'. call act s = (Inr (), s') \<and> quiet s'"
proof (cases act)
  case Noop
  with assms show ?thesis by (simp add: resolve_def)
next
  case (Reversal a c)
  from deactivateConnection_quiet [OF assms, of a]
  obtain s1 where s1: "deactivateConnection a s = (Inr (), s1)" by blast
  then have "effect (\<lambda>_. True) s s1" by (rule deactivateConnection_effect) simp_all
  then have q1: "quiet s1" using assms by (rule effect_quiet)
  from removeConnection_quiet [OF q1, of c]
  obtain s2 where s2: "removeConnection c s1 = (Inr (), s2)" by blast
  then have "effect (\<lambda>_. True) s1 s2" by (rule removeConnection_effect) simp_all
  then have "quiet s2" using q1 by (rule effect_quiet)
  moreover have "call act s = (Inr (), s2)"
    using Reversal s1 s2 by (simp add: await_def)
  ultimately show ?thesis by blast
qed

lemma register_fn [simp]: "fn m (register m f s) = f"
  by (cases m) simp_all

lemma register_other: "m \<noteq> m' \<Longrightarrow> fn m' (register m f s) = fn m' s"
  by (cases m; cases m') simp_all

lemma register_fields [simp]:
  "calls (register m f s) = calls s" "faults (register m f s) = faults s"
  "profiles (register m f s) = profiles s" "actives (register m f s) = actives s"
  "connected (register m f s) = connected s" "console (register m f s) = console s"
  "exit_code (register m f s) = exit_code s" "options (register m f s) = options s"
  "next_path (register m f s) = next_path s"
  by (cases m; simp)+

lemma register_idem: "fn m s = f \<Longrightarrow> register m f s = s"
  by (cases m) auto

lemma bus_only_fn: "bus_only s s' \<Longrightarrow> fn m s' = fn m s"
  by (cases m) (simp_all add: bus_only_def)

lemma run_resolved:
  assumes "run m s = (Inr x, s')"
  obtains s1 where "call (fn m s) s = (Inr (), s1)" "s' = register m Noop s1"
  using assms unfolding run_def by (elim awaitE) auto

lemma run_rejected:
  assumes "run m s = (Inl e, s')"
  shows "call (fn m s) s = (Inl e, s')"
  using assms unfolding run_def by (elim awaitE) auto

lemma run_Noop: "fn m s = Noop \<Longrightarrow> run m s = (Inr (), s)"
  by (simp add: run_def await_def resolve_def register_idem)

lemma run_quiet:
  assumes "quiet s"
  shows "\<exists>s'. run m s = (Inr (), s') \<and> quiet s' \<and> fn m s' = Noop
           \<and> (\<forall>m'. m' \<noteq> m \<longrightarrow> fn m' s' = fn m' s) \<and> connected s' = connected s"
proof -
  from call_quiet [OF assms, of "fn m s"]
  obtain s1 where s1: "call (fn m s) s = (Inr (), s1)" "quiet s1" by blast
  have b: "bus_only s s1" using s1(1) by (rule call_bus_only)
  have "run m s = (Inr (), register m Noop s1)"
    using s1(1) by (simp add: run_def await_def)
  moreover have "quiet (register m Noop s1)"
    using s1(2) by (simp add: quiet_def)
  moreover have "\<forall>m'. m' \<noteq> m \<longrightarrow> fn m' (register m Noop s1) = fn m' s"
    using b by (simp add: register_other bus_only_fn)
  moreover have "connected (register m Noop s1) = connected s"
    using b by (simp add: bus_only_def)
  ultimately show ?thesis by simp
qed

lemmas eval_defs = eth0_wlan0_def NetworkManager_def boot_def on_def addWiredConnection_def
  addWirelessConnection_def run_def addConnection_def getDevice_def activateConnection_def
  deactivateConnection_def removeConnection_def wiredTemplate_def wirelessTemplate_def
  generateId_def log_def rejects_def unfold_bus teardown_def removeListener_def disconnect_def
  exit_def sent_def

lemma wired_up_eq:
  "wired_up fs =
     \<lparr>options = eth0_wlan0,
      teardowns_wired = Reversal (Active 1) (Profile 0), teardowns_wireless = Noop,
      profiles = [Profile 0], actives = [Active 1], next_path = 2, connected = True,
      calls = [GetProxyObject Settings_path,
               AddConnectionUnsaved (fst (wiredTemplate (js ''shared'') (boot [] []))),
               GetProxyObject Manager_path, GetDeviceByIpIface (js ''eth0''),
               GetProxyObject Manager_path,
               ActivateConnection (Profile 0) (Device (js ''eth0'')) Root_path],
      faults = fs, random = [],
      listeners_SIGINT = [Teardown_method], listeners_SIGTERM = [Teardown_method],
      exit_code = None, console = [js ''Wired AP; IFACE: '' @ js ''eth0''], unhandled = []\<rparr>"
  by (simp add: wired_up_def eval_defs numeral_eq_Suc)

lemma both_up_eq:
  "both_up fs =
     \<lparr>options = eth0_wlan0,
      teardowns_wired = Reversal (Active 1) (Profile 0),
      teardowns_wireless = Reversal (Active 3) (Profile 2),
      profiles = [Profile 0, Profile 2], actives = [Active 1, Active 3], next_path = 4,
      connected = True,
      calls = calls (wired_up []) @
              [GetProxyObject Settings_path,
               AddConnectionUnsaved
                 (fst (wirelessTemplate (js ''shared'') (js ''myssid'') (Some (js ''mypsk''))
                        (boot [] []))),
               GetProxyObject Manager_path, GetDeviceByIpIface (js ''wlan0''),
               GetProxyObject Manager_path,
               ActivateConnection (Profile 2) (Device (js ''wlan0'')) Root_path],
      faults = fs, random = [],
      listeners_SIGINT = [Teardown_method], listeners_SIGTERM = [Teardown_method],
      exit_code = None,
      console = [js ''Wired AP; IFACE: '' @ js ''eth0'',
                 js ''Wireless AP; SSID: '' @ js ''myssid'' @ js '' IFACE: '' @ js ''wlan0''],
      unhandled = []\<rparr>"
  by (simp add: both_up_def wired_up_eq eth0_wlan0_def addWirelessConnection_def run_def
      addConnection_def getDevice_def activateConnection_def wirelessTemplate_def
      generateId_def log_def rejects_def unfold_bus boot_def numeral_eq_Suc)

subsection \<open>The manager's teardown\<close>

lemma run_effect:
  assumes "run m s = (res, s')"
    "\<And>p. P (GetProxyObject p)" "\<And>r. P (Delete r)" "\<And>a. P (DeactivateConnection a)"
  shows "\<exists>new. calls s' = calls s @ new \<and> list_all P new"
    "connected s' = connected s" "exit_code s' = exit_code s" "console s' = console s"
    "listeners_SIGINT s' = listeners_SIGINT s" "listeners_SIGTERM s' = listeners_SIGTERM s"
proof -
  have "\<exists>s1. effect P s s1 \<and> (s' = s1 \<or> s' = register m Noop s1)"
  proof (cases res)
    case (Inl e)
    with assms(1) have "call (fn m s) s = (Inl e, s')" by (simp add: run_rejected)
    then have "effect P s s'" by (rule call_effect) (rule assms)+
    then show ?thesis by blast
  next
    case (Inr x)
    with assms(1) obtain s1 where "call (fn m s) s = (Inr (), s1)" "s' = register m Noop s1"
      by (auto elim: run_resolved)
    moreover from this(1) have "effect P s s1" by (rule call_effect) (rule assms)+
    ultimately show ?thesis by blast
  qed
  then obtain s1 where s1: "effect P s s1" "s' = s1 \<or> s' = register m Noop s1" by blast
  from s1 show "\<exists>new. calls s' = calls s @ new \<and> list_all P new"
    by (auto simp: effect_def)
  from s1 show "connected s' = connected s" "exit_code s' = exit_code s"
    "console s' = console s"
    by (auto simp: effect_def bus_only_def)
  from s1 show "listeners_SIGINT s' = listeners_SIGINT s"
    "listeners_SIGTERM s' = listeners_SIGTERM s"
    by (cases m; auto simp: effect_def bus_only_def)+
qed

lemma teardown_manager:
  "teardown This_manager sig s =
     await (run Wired) (\<lambda>_. await (run Wireless) (\<lambda>_ s1.
       (Inr (), if sig = Some SIGINT then exit 130 (disconnect s1)
                else if sig = Some SIGTERM then exit 143 (disconnect s1)
                else disconnect s1))) (deregistered s)"
  by (simp add: teardown_def removeListener_def deregistered_def await_def
      split: prod.splits sum.splits)

lemma deregistered_fields [simp]:
  "calls (deregistered s) = calls s" "faults (deregistered s) = faults s"
  "connected (deregistered s) = connected s" "console (deregistered s) = console s"
  "exit_code (deregistered s) = exit_code s" "fn m (deregistered s) = fn m s"
  by (cases m; simp add: deregistered_def)+

lemmas reversal_defs = run_def deactivateConnection_def removeConnection_def rejects_def
  unfold_bus

lemma teardown_as_listener:
  "teardown This_process signal s =
     (Inl (TypeError ''The listener argument must be of type function''), s)"
  by (simp add: teardown_def removeListener_def await_def)

lemma emit_rejects:
  "exit_code s = None \<Longrightarrow>
     emit ls sig s =
       s\<lparr>unhandled := unhandled s @
           replicate (length ls) (TypeError ''The listener argument must be of type function'')\<rparr>"
proof (induction ls arbitrary: s)
  case Nil
  then show ?case by simp
next
  case (Cons l ls)
  then show ?case
    by (cases l) (simp add: teardown_as_listener replicate_app_Cons_same)
qed

lemma teardown_bound_exit:
  assumes "quiet s" "exit_code s = None"
  shows "\<exists>s'. teardown This_manager (Some sig) s = (Inr (), s')
           \<and> exit_code s' = Some (128 + signals sig)
           \<and> fn Wired s' = Noop \<and> fn Wireless s' = Noop \<and> \<not> connected s'"
proof -
  from assms(1) have "quiet (deregistered s)" by (simp add: quiet_def)
  from run_quiet [OF this, of Wired]
  obtain s1 where s1: "run Wired (deregistered s) = (Inr (), s1)" "quiet s1" "fn Wired s1 = Noop"
    by blast
  from run_quiet [OF s1(2), of Wireless]
  obtain s2 where s2: "run Wireless s1 = (Inr (), s2)" "fn Wireless s2 = Noop"
    "fn Wired s2 = fn Wired s1"
    by auto
  show ?thesis
    using s1 s2 by (cases sig) (simp_all add: teardown_manager await_def disconnect_def exit_def)
qed

subsection \<open>The descriptor builders\<close>

lemma stringToArrayOfBytes_loop_eq:
  "stringToArrayOfBytes_loop str i bytes = bytes @ map unat (drop i str)"
proof (induction str i bytes rule: stringToArrayOfBytes_loop.induct)
  case (1 str i bytes)
  show ?case
  proof (cases "i < length str")
    case True
    then have "drop i str = str ! i # drop (Suc i) str"
      by (simp add: Cons_nth_drop_Suc)
    with True "1" show ?thesis
      by (subst stringToArrayOfBytes_loop.simps) simp
  next
    case False
    then show ?thesis
      by (subst stringToArrayOfBytes_loop.simps) simp
  qed
qed

lemma stringToArrayOfBytes_eq: "stringToArrayOfBytes str = map unat str"
  by (simp add: stringToArrayOfBytes_def stringToArrayOfBytes_loop_eq)

lemma stringToArrayOfBytes_latin1:
  "(\<forall>b \<in> set (stringToArrayOfBytes str). b < 256) \<longleftrightarrow> (\<forall>c \<in> set str. c < 256)"
  by (auto simp: stringToArrayOfBytes_eq word_less_nat_alt)

lemma wirelessTemplate_example:
  "setting (fst (wirelessTemplate (js ''shared'') (js ''myssid'') (Some (js ''mypsk'')) s))
      ''802-11-wireless'' ''ssid'' = Some (Variant ''ay'' (JArray [109, 121, 115, 115, 105, 100]))"
  "setting (fst (wirelessTemplate (js ''shared'') (js ''myssid'') (Some (js ''mypsk'')) s))
      ''ipv4'' ''method'' = Some (Variant ''s'' (JString (js ''shared'')))"
  "setting (fst (wirelessTemplate (js ''shared'') (js ''myssid'') (Some (js ''mypsk'')) s))
      ''802-11-wireless-security'' ''psk'' = Some (Variant ''s'' (JString (js ''mypsk'')))"
  "setting (fst (wirelessTemplate (js ''shared'') (js ''myssid'') (Some (js ''mypsk'')) s))
      ''802-11-wireless-security'' ''key-mgmt'' = Some (Variant ''s'' (JString (js ''wpa-psk'')))"
  by (simp_all add: setting_def wirelessTemplate_def stringToArrayOfBytes_eq js_def
      split: prod.splits)

subsection \<open>Establishing a connection\<close>

lemma addWiredConnection_steps:
  assumes "options s = Some opts" "options_wired opts = Some iface"
  shows "addWiredConnection (Some nat_flag) s =
     await (run Wired) (\<lambda>_.
       establish Wired (wiredTemplate (js (if nat_flag then ''shared'' else ''link-local'')))
         iface (js ''Wired AP; IFACE: '' @ iface)) s"
  using assms by (simp add: addWiredConnection_def establish_def)

lemma addWirelessConnection_steps:
  assumes "options s = Some opts" "options_wireless opts = Some iface"
  shows "addWirelessConnection (Some ssid) (Some psk) (Some nat_flag) s =
     await (run Wireless) (\<lambda>_.
       establish Wireless
         (wirelessTemplate (js (if nat_flag then ''shared'' else ''link-local'')) ssid (Some psk))
         iface (js ''Wireless AP; SSID: '' @ ssid @ js '' IFACE: '' @ iface)) s"
  using assms by (simp add: addWirelessConnection_def establish_def)

lemma wiredTemplate_like: "template_like (wiredTemplate method)"
  by (auto simp: template_like_def wiredTemplate_def generateId_def split: list.splits)

lemma wirelessTemplate_like: "template_like (wirelessTemplate method ssid psk)"
  by (auto simp: template_like_def wirelessTemplate_def generateId_def split: list.splits)

lemma template_fields:
  assumes "template_like t" "t s = (d, s2)"
  shows "calls s2 = calls s" "faults s2 = faults s" "profiles s2 = profiles s"
    "actives s2 = actives s" "fn m s2 = fn m s" "connected s2 = connected s"
proof -
  from assms have eq: "s2 = s\<lparr>random := random s2\<rparr>"
    by (metis snd_conv template_like_def)
  show "calls s2 = calls s" "faults s2 = faults s" "profiles s2 = profiles s"
    "actives s2 = actives s" "connected s2 = connected s"
    by (subst eq, simp)+
  show "fn m s2 = fn m s"
    by (subst eq, cases m, simp_all)
qed

lemma establish_cases:
  assumes e: "establish m t iface line s = (res, s')" and t: "template_like t"
    and d: "t s = (d, s2)"
  obtains
    (add_fails) err where "addConnection d s2 = (Inl err, s')" "res = Inl err"
  | (device_fails) conn s3 err where "addConnection d s2 = (Inr conn, s3)"
      "getDevice iface s3 = (Inl err, s')" "res = Inl err"
  | (activate_fails) conn s3 dev s4 err where "addConnection d s2 = (Inr conn, s3)"
      "getDevice iface s3 = (Inr dev, s4)" "activateConnection conn dev s4 = (Inl err, s')"
      "res = Inl err"
  | (established) conn s3 dev s4 a s5 where "addConnection d s2 = (Inr conn, s3)"
      "getDevice iface s3 = (Inr dev, s4)" "activateConnection conn dev s4 = (Inr a, s5)"
      "res = Inr iface" "s' = register m (Reversal a conn) (log line s5)"
  using e d unfolding establish_def
  by (elim awaitE) auto

lemma sent_eq: "calls s' = calls s @ new \<Longrightarrow> sent s s' = new"
  by (simp add: sent_def)

lemma requests_trans:
  assumes "requests P s s1" "requests P s1 s2"
  shows "requests P s s2"
proof -
  have "calls s2 = calls s @ sent s s1 @ sent s1 s2"
    using assms by (simp add: requests_def)
  then have "sent s s2 = sent s s1 @ sent s1 s2"
    by (rule sent_eq)
  with assms show ?thesis by (simp add: requests_def)
qed

lemma sent_append:
  assumes "requests P s s1" "requests Q s1 s2"
  shows "sent s s2 = sent s s1 @ sent s1 s2"
proof -
  have "calls s2 = calls s @ sent s s1 @ sent s1 s2"
    using assms by (simp add: requests_def)
  then show ?thesis by (rule sent_eq)
qed

lemma effect_requests: "effect P s s' \<Longrightarrow> requests P s s'"
  by (auto simp: effect_def requests_def sent_def)

lemma requests_eq: "calls s' = calls s \<Longrightarrow> requests P s s'"
  by (simp add: requests_def sent_def)

lemma run_requests:
  assumes "run m s = (res, s')"
    "\<And>p. P (GetProxyObject p)" "\<And>r. P (Delete r)" "\<And>a. P (DeactivateConnection a)"
  shows "requests P s s'"
  using run_effect(1) [OF assms] by (auto simp: requests_def sent_def)

lemma bus_error_last:
  assumes "addConnection d s = (Inl e, s')
           \<or> getDevice iface s = (Inl e, s') \<or> activateConnection c dev s = (Inl e, s')"
  shows "sent s s' \<noteq> [] \<and> e = DBusError (last (sent s s'))"
  using assms
  by (auto simp: addConnection_def getDevice_def activateConnection_def unfold_bus sent_def
      split: if_splits)

lemma establish_requests:
  assumes e: "establish m t iface line s = (res, s')" and t: "template_like t"
    and d: "t s = (d, s2)"
    and P: "P (GetProxyObject Settings_path)" "P (AddConnectionUnsaved d)"
      "P (GetProxyObject Manager_path)" "P (GetDeviceByIpIface iface)"
      "\<And>c dev. P (ActivateConnection c dev Root_path)"
  shows "requests P s s'"
proof -
  have r0: "requests P s s2"
    using template_fields(1) [OF t d] by (rule requests_eq)
  from e t d show ?thesis
  proof (cases rule: establish_cases)
    case (add_fails err)
    then have "requests P s2 s'"
      by (blast intro: effect_requests addConnection_effect P)
    with r0 show ?thesis by (rule requests_trans)
  next
    case (device_fails conn s3 err)
    then have "requests P s2 s3" "requests P s3 s'"
      by (blast intro: effect_requests addConnection_effect getDevice_effect P)+
    with r0 show ?thesis by (blast intro: requests_trans)
  next
    case (activate_fails conn s3 dev s4 err)
    then have "requests P s2 s3" "requests P s3 s4" "requests P s4 s'"
      by (blast intro: effect_requests addConnection_effect getDevice_effect
          activateConnection_effect P)+
    with r0 show ?thesis by (blast intro: requests_trans)
  next
    case (established conn s3 dev s4 a s5)
    then have "requests P s2 s3" "requests P s3 s4" "requests P s4 s5"
      by (blast intro: effect_requests addConnection_effect getDevice_effect
          activateConnection_effect P)+
    moreover have "requests P s5 s'"
      using established(5) by (simp add: requests_eq log_def)
    ultimately show ?thesis using r0 by (blast intro: requests_trans)
  qed
qed

lemma log_fields [simp]:
  "calls (log l s) = calls s" "profiles (log l s) = profiles s" "actives (log l s) = actives s"
  "fn m (log l s) = fn m s" "faults (log l s) = faults s"
  by (cases m; simp add: log_def)+

lemma effect_fn: "effect P s s' \<Longrightarrow> fn m s' = fn m s"
  by (simp add: effect_def bus_only_fn)

lemma establish_rejected:
  assumes e: "establish m t iface line s = (Inl err, s')" and t: "template_like t"
  shows "fn m' s' = fn m' s" "actives s' = actives s" "set (profiles s) \<subseteq> set (profiles s')"
    "sent s s' \<noteq> [] \<and> err = DBusError (last (sent s s'))"
proof -
  obtain d s2 where d: "t s = (d, s2)" by (cases "t s")
  note tf = template_fields [OF t d]
  let ?T = "\<lambda>_ :: bus_call. True"
  have r: "requests ?T s s2" using tf(1) by (rule requests_eq)
  have "fn m' s' = fn m' s \<and> actives s' = actives s \<and> set (profiles s) \<subseteq> set (profiles s')
        \<and> sent s s' \<noteq> [] \<and> err = DBusError (last (sent s s'))"
    using e t d
  proof (cases rule: establish_cases)
    case (add_fails err')
    then have a: "addConnection d s2 = (Inl err, s')" by simp
    have f: "effect ?T s2 s'" using a by (rule addConnection_effect) simp_all
    have "sent s s' = sent s2 s'" using tf(1) by (simp add: sent_def)
    then show ?thesis
      using addConnection_service [OF a] effect_fn [OF f] tf bus_error_last [of d s2 err s']
        a by auto
  next
    case (device_fails conn s3 err')
    then have a: "addConnection d s2 = (Inr conn, s3)" and g: "getDevice iface s3 = (Inl err, s')"
      by simp_all
    have f: "effect ?T s2 s3" "effect ?T s3 s'"
      using a g by (blast intro: addConnection_effect getDevice_effect)+
    have "sent s2 s' = sent s2 s3 @ sent s3 s'"
      using effect_requests [OF f(1)] effect_requests [OF f(2)] by (rule sent_append)
    then have "sent s s' = sent s2 s3 @ sent s3 s'"
      using tf(1) by (simp add: sent_def)
    then show ?thesis
      using addConnection_service [OF a] getDevice_service [OF g] effect_fn [OF f(1)]
        effect_fn [OF f(2)] tf bus_error_last [of _ s3 err s' iface] g by auto
  next
    case (activate_fails conn s3 dev s4 err')
    then have a: "addConnection d s2 = (Inr conn, s3)" and g: "getDevice iface s3 = (Inr dev, s4)"
      and c: "activateConnection conn dev s4 = (Inl err, s')"
      by simp_all
    have f: "effect ?T s2 s3" "effect ?T s3 s4" "effect ?T s4 s'"
      using a g c by (blast intro: addConnection_effect getDevice_effect
          activateConnection_effect)+
    have r24: "requests ?T s2 s4"
      using f(1,2) by (blast intro: effect_requests requests_trans)
    have "sent s2 s' = sent s2 s4 @ sent s4 s'"
      using r24 effect_requests [OF f(3)] by (rule sent_append)
    then have "sent s s' = sent s2 s4 @ sent s4 s'"
      using tf(1) by (simp add: sent_def)
    then show ?thesis
      using addConnection_service [OF a] getDevice_service [OF g]
        activateConnection_service [OF c] effect_fn [OF f(1)] effect_fn [OF f(2)]
        effect_fn [OF f(3)] tf bus_error_last [of _ s4 err s' _ conn dev] c by auto
  next
    case (established conn s3 dev s4 a s5)
    then show ?thesis by simp
  qed
  then show "fn m' s' = fn m' s" "actives s' = actives s" "set (profiles s) \<subseteq> set (profiles s')"
    "sent s s' \<noteq> [] \<and> err = DBusError (last (sent s s'))"
    by simp_all
qed


subsection \<open>Evaluation of the example states\<close>

lemma leaking_eq:
  "addWiredConnection (Some True) leaking =
     (Inl (DBusError (GetProxyObject Manager_path)),
      \<lparr>options = eth0_wlan0, teardowns_wired = Noop, teardowns_wireless = Noop,
       profiles = [Profile 0], actives = [], next_path = 1, connected = True,
       calls = [GetProxyObject Settings_path,
                AddConnectionUnsaved (fst (wiredTemplate (js ''shared'') (boot [] []))),
                GetProxyObject Manager_path],
       faults = [], random = [],
       listeners_SIGINT = [Teardown_method], listeners_SIGTERM = [Teardown_method],
       exit_code = None, console = [], unhandled = []\<rparr>)"
  by (simp add: leaking_def eval_defs)

lemma addWiredConnection_after_run:
  assumes "options s = Some opts" "options_wired opts = Some iface"
    "run Wired s = (Inr (), s1)"
  shows "addWiredConnection (Some nat_flag) s =
     establish Wired (wiredTemplate (js (if nat_flag then ''shared'' else ''link-local'')))
       iface (js ''Wired AP; IFACE: '' @ iface) s1"
  unfolding addWiredConnection_steps [OF assms(1,2)]
  using assms(3) by (rule await_resolved)

lemma addWirelessConnection_after_run:
  assumes "options s = Some opts" "options_wireless opts = Some iface"
    "run Wireless s = (Inr (), s1)"
  shows "addWirelessConnection (Some ssid) (Some psk) (Some nat_flag) s =
     establish Wireless
       (wirelessTemplate (js (if nat_flag then ''shared'' else ''link-local'')) ssid (Some psk))
       iface (js ''Wireless AP; SSID: '' @ ssid @ js '' IFACE: '' @ iface) s1"
  unfolding addWirelessConnection_steps [OF assms(1,2)]
  using assms(3) by (rule await_resolved)

subsection \<open>Sequences of wired calls\<close>


lemma wirelessTemplate_secured: "secured p (fst (wirelessTemplate method ssid (Some p) s))"
  by (simp add: secured_def setting_def wirelessTemplate_def split: prod.splits)

lemma addWirelessConnection_cases:
  obtains (invalid) msg where
      "addWirelessConnection ssid_opt psk_opt nat_opt s = (Inl (Error msg), s)"
  | (valid) opts iface ssid psk nat_flag where "options s = Some opts"
      "options_wireless opts = Some iface" "ssid_opt = Some ssid" "psk_opt = Some psk"
      "nat_opt = Some nat_flag"
proof (cases "options s")
  case None
  then show ?thesis by (intro invalid) (simp add: addWirelessConnection_def reject_def)
next
  case (Some opts)
  show ?thesis
  proof (cases "options_wireless opts")
    case None
    with Some show ?thesis by (intro invalid) (simp add: addWirelessConnection_def reject_def)
  next
    case iface: (Some iface)
    show ?thesis
    proof (cases "ssid_opt = None \<or> psk_opt = None \<or> nat_opt = None")
      case True
      with Some iface show ?thesis
        by (intro invalid)
           (auto simp: addWirelessConnection_def reject_def split: option.splits)
    next
      case False
      with Some iface show ?thesis by (auto intro: valid)
    qed
  qed
qed

lemma wlan_failing_eq:
  "addWirelessConnection (Some (js ''myssid'')) (Some (js ''mypsk'')) (Some True) wlan_failing =
     (Inl (DBusError (ActivateConnection (Profile 0) (Device (js ''wlan0'')) Root_path)),
      \<lparr>options = eth0_wlan0, teardowns_wired = Noop, teardowns_wireless = Noop,
       profiles = [Profile 0], actives = [], next_path = 1, connected = True,
       calls = [GetProxyObject Settings_path,
                AddConnectionUnsaved
                  (fst (wirelessTemplate (js ''shared'') (js ''myssid'') (Some (js ''mypsk''))
                         (boot [] []))),
                GetProxyObject Manager_path, GetDeviceByIpIface (js ''wlan0''),
                GetProxyObject Manager_path,
                ActivateConnection (Profile 0) (Device (js ''wlan0'')) Root_path],
       faults = [], random = [],
       listeners_SIGINT = [Teardown_method], listeners_SIGTERM = [Teardown_method],
       exit_code = None, console = [], unhandled = []\<rparr>)"
  by (simp add: wlan_failing_def eval_defs)

subsection \<open>Outcomes by the step that fails\<close>

lemma run_call_resolved:
  "call (fn m s) s = (Inr (), s1) \<Longrightarrow> run m s = (Inr (), register m Noop s1)"
  by (simp add: run_def await_def)

lemma run_call_rejected: "call (fn m s) s = (Inl e, s1) \<Longrightarrow> run m s = (Inl e, s1)"
  by (simp add: run_def await_def)

lemma call_untouched:
  assumes "call act s = (res, s')"
  shows "connected s' = connected s" "exit_code s' = exit_code s" "console s' = console s"
    "fn m s' = fn m s" "Disconnect \<notin> set (sent s s')"
proof -
  have e: "effect (\<lambda>c. c \<noteq> Disconnect) s s'"
    using assms by (rule call_effect) simp_all
  then show "connected s' = connected s" "exit_code s' = exit_code s" "console s' = console s"
    by (simp_all add: effect_def bus_only_def)
  from e show "fn m s' = fn m s" by (rule effect_fn)
  from e have "requests (\<lambda>c. c \<noteq> Disconnect) s s'" by (rule effect_requests)
  then show "Disconnect \<notin> set (sent s s')"
    by (auto simp: requests_def list_all_iff)
qed

lemma sent_deregistered [simp]: "sent (deregistered s) s' = sent s s'"
  by (simp add: sent_def)

lemma sent_register [simp]: "sent (register m f s) s' = sent s s'"
  by (simp add: sent_def)

lemma sent_trans:
  assumes "call a1 s = (r1, s1)" "call a2 (register m f s1) = (r2, s2)"
  shows "sent s s2 = sent s s1 @ sent s1 s2"
proof -
  have "requests (\<lambda>_. True) s s1"
    using assms(1) by (intro effect_requests call_effect [where act = a1 and res = r1]) simp_all
  moreover have "requests (\<lambda>_. True) (register m f s1) s2"
    using assms(2) by (intro effect_requests call_effect [where act = a2 and res = r2]) simp_all
  then have "requests (\<lambda>_. True) s1 s2"
    by (simp add: requests_def sent_def)
  ultimately show ?thesis by (rule sent_append)
qed

lemma establish_add_fails:
  assumes "t s = (d, s2)" "addConnection d s2 = (Inl e, s')"
  shows "establish m t iface line s = (Inl e, s')"
  using assms by (simp add: establish_def await_def)

lemma establish_device_fails:
  assumes "t s = (d, s2)" "addConnection d s2 = (Inr conn, s3)"
    "getDevice iface s3 = (Inl e, s')"
  shows "establish m t iface line s = (Inl e, s')"
  using assms by (simp add: establish_def await_def)

lemma establish_activate_fails:
  assumes "t s = (d, s2)" "addConnection d s2 = (Inr conn, s3)"
    "getDevice iface s3 = (Inr dev, s4)" "activateConnection conn dev s4 = (Inl e, s')"
  shows "establish m t iface line s = (Inl e, s')"
  using assms by (simp add: establish_def await_def)

lemma establish_rejected_idle:
  assumes r: "run m z0 = (Inr (), z)" and e: "establish m t i l z = (Inl err, z')"
    and t: "template_like t"
  shows "fn m z' = Noop \<and> actives z' = actives z
      \<and> list_all (\<lambda>c. \<not> cleanup_call c) (sent z z')
      \<and> sent z z' \<noteq> [] \<and> err = DBusError (last (sent z z'))"
proof -
  from r have "fn m z = Noop" by (auto elim: run_resolved)
  moreover obtain d z2 where d: "t z = (d, z2)" by (cases "t z")
  have "requests (\<lambda>c. \<not> cleanup_call c) z z'"
    using e t d by (rule establish_requests) simp_all
  ultimately show ?thesis
    using establish_rejected(1) [OF e t, of m] establish_rejected(2-4) [OF e t]
    by (simp add: requests_def)
qed

lemma failed_step:
  assumes r: "run m z0 = (Inr (), z)" and t: "template_like t" and d: "t z = (d, z2)"
  shows
    "addConnection d z2 = (Inl e, z') \<longrightarrow>
       establish m t i l z = (Inl e, z') \<and> profiles z' = profiles z
       \<and> fn m z' = Noop \<and> actives z' = actives z
       \<and> list_all (\<lambda>c. \<not> cleanup_call c) (sent z z')
       \<and> sent z z' \<noteq> [] \<and> e = DBusError (last (sent z z'))"
    "addConnection d z2 = (Inr conn, z3) \<and> getDevice i z3 = (Inl e, z') \<longrightarrow>
       establish m t i l z = (Inl e, z') \<and> profiles z' = profiles z @ [conn]
       \<and> fn m z' = Noop \<and> actives z' = actives z
       \<and> list_all (\<lambda>c. \<not> cleanup_call c) (sent z z')
       \<and> sent z z' \<noteq> [] \<and> e = DBusError (last (sent z z'))"
    "addConnection d z2 = (Inr conn, z3) \<and> getDevice i z3 = (Inr dev, z4)
       \<and> activateConnection conn dev z4 = (Inl e, z') \<longrightarrow>
       establish m t i l z = (Inl e, z') \<and> profiles z' = profiles z @ [conn]
       \<and> fn m z' = Noop \<and> actives z' = actives z
       \<and> list_all (\<lambda>c. \<not> cleanup_call c) (sent z z')
       \<and> sent z z' \<noteq> [] \<and> e = DBusError (last (sent z z'))"
proof -
  note tf = template_fields [OF t d]
  show "addConnection d z2 = (Inl e, z') \<longrightarrow>
       establish m t i l z = (Inl e, z') \<and> profiles z' = profiles z
       \<and> fn m z' = Noop \<and> actives z' = actives z
       \<and> list_all (\<lambda>c. \<not> cleanup_call c) (sent z z')
       \<and> sent z z' \<noteq> [] \<and> e = DBusError (last (sent z z'))"
  proof
    assume a: "addConnection d z2 = (Inl e, z')"
    have est: "establish m t i l z = (Inl e, z')"
      using d a by (rule establish_add_fails)
    have "profiles z' = profiles z"
      using addConnection_service(3) [OF a] tf(3) by simp
    with est establish_rejected_idle [OF r est t]
    show "establish m t i l z = (Inl e, z') \<and> profiles z' = profiles z
       \<and> fn m z' = Noop \<and> actives z' = actives z
       \<and> list_all (\<lambda>c. \<not> cleanup_call c) (sent z z')
       \<and> sent z z' \<noteq> [] \<and> e = DBusError (last (sent z z'))"
      by simp
  qed
  show "addConnection d z2 = (Inr conn, z3) \<and> getDevice i z3 = (Inl e, z') \<longrightarrow>
       establish m t i l z = (Inl e, z') \<and> profiles z' = profiles z @ [conn]
       \<and> fn m z' = Noop \<and> actives z' = actives z
       \<and> list_all (\<lambda>c. \<not> cleanup_call c) (sent z z')
       \<and> sent z z' \<noteq> [] \<and> e = DBusError (last (sent z z'))"
  proof
    assume h: "addConnection d z2 = (Inr conn, z3) \<and> getDevice i z3 = (Inl e, z')"
    then have a: "addConnection d z2 = (Inr conn, z3)" and g: "getDevice i z3 = (Inl e, z')"
      by simp_all
    have est: "establish m t i l z = (Inl e, z')"
      using d a g by (rule establish_device_fails)
    have "profiles z' = profiles z @ [conn]"
      using addConnection_service(2) [OF a] getDevice_service(2) [OF g] tf(3) by simp
    with est establish_rejected_idle [OF r est t]
    show "establish m t i l z = (Inl e, z') \<and> profiles z' = profiles z @ [conn]
       \<and> fn m z' = Noop \<and> actives z' = actives z
       \<and> list_all (\<lambda>c. \<not> cleanup_call c) (sent z z')
       \<and> sent z z' \<noteq> [] \<and> e = DBusError (last (sent z z'))"
      by simp
  qed
  show "addConnection d z2 = (Inr conn, z3) \<and> getDevice i z3 = (Inr dev, z4)
       \<and> activateConnection conn dev z4 = (Inl e, z') \<longrightarrow>
       establish m t i l z = (Inl e, z') \<and> profiles z' = profiles z @ [conn]
       \<and> fn m z' = Noop \<and> actives z' = actives z
       \<and> list_all (\<lambda>c. \<not> cleanup_call c) (sent z z')
       \<and> sent z z' \<noteq> [] \<and> e = DBusError (last (sent z z'))"
  proof
    assume h: "addConnection d z2 = (Inr conn, z3) \<and> getDevice i z3 = (Inr dev, z4)
       \<and> activateConnection conn dev z4 = (Inl e, z')"
    then have a: "addConnection d z2 = (Inr conn, z3)" and g: "getDevice i z3 = (Inr dev, z4)"
      and c: "activateConnection conn dev z4 = (Inl e, z')"
      by simp_all
    have est: "establish m t i l z = (Inl e, z')"
      using d a g c by (rule establish_activate_fails)
    have "profiles z' = profiles z @ [conn]"
      using addConnection_service(2) [OF a] getDevice_service(2) [OF g]
        activateConnection_service(1) [OF c] tf(3) by simp
    with est establish_rejected_idle [OF r est t]
    show "establish m t i l z = (Inl e, z') \<and> profiles z' = profiles z @ [conn]
       \<and> fn m z' = Noop \<and> actives z' = actives z
       \<and> list_all (\<lambda>c. \<not> cleanup_call c) (sent z z')
       \<and> sent z z' \<noteq> [] \<and> e = DBusError (last (sent z z'))"
      by simp
  qed
qed

lemmas call_eval = both_up_eq wired_up_eq deregistered_def deactivateConnection_def
  removeConnection_def rejects_def unfold_bus





lemma log_next_path [simp]: "next_path (log l s) = next_path s"
  by (simp add: log_def)







subsection \<open>The claims\<close>

text \<open>
  Claim C1, as stated: \<^verbatim>\<open>teardown()\<close> never raises; failures of the wired or wireless
  Teardown Action are suppressed and logged, and the shutdown sequence always completes.
  It fails: with both connections up and the bus rejecting the first request of the wired
  reversal, \<^verbatim>\<open>teardown()\<close> raises that error after one request.  Both closures are still
  held, both connections are still active, the bus client is still connected, and nothing
  was printed.
\<close>

theorem C1_teardown_raises:
  "fst (teardown This_manager None (both_up [True])) =
      Inl (DBusError (GetProxyObject ActiveConnection_path))
   \<and> sent (both_up [True]) (snd (teardown This_manager None (both_up [True]))) =
      [GetProxyObject ActiveConnection_path]
   \<and> fn Wired (snd (teardown This_manager None (both_up [True]))) =
      Reversal (Active 1) (Profile 0)
   \<and> fn Wireless (snd (teardown This_manager None (both_up [True]))) =
      Reversal (Active 3) (Profile 2)
   \<and> actives (snd (teardown This_manager None (both_up [True]))) = [Active 1, Active 3]
   \<and> connected (snd (teardown This_manager None (both_up [True])))
   \<and> console (snd (teardown This_manager None (both_up [True]))) = console (both_up [True])"
  by (simp add: both_up_eq teardown_manager deregistered_def reversal_defs sent_def)

text \<open>
  Claim C1, amended: \<^verbatim>\<open>teardown()\<close> returns normally exactly when both Teardown Actions
  return normally, and then both are reset, the bus client is disconnected and, for a
  signal, the process exits with 128 + signal number; this is so in particular when the bus
  rejects no request, and when both Modes are idle.  An error thrown by the wired Teardown
  Action propagates to the caller, and \<^verbatim>\<open>teardown()\<close> stops in the state that action left:
  both actions still held, the bus client not disconnected, the process not exited, nothing
  printed.  An error thrown by the wireless Teardown Action, after the wired one has
  succeeded, propagates in the same way.
\<close>

theorem C1_teardown_outcomes:
  "(call (fn Wired s) (deregistered s) = (Inl e, s1) \<longrightarrow>
      teardown This_manager sig s = (Inl e, s1)
      \<and> connected s1 = connected s \<and> exit_code s1 = exit_code s \<and> console s1 = console s
      \<and> fn Wired s1 = fn Wired s \<and> fn Wireless s1 = fn Wireless s
      \<and> Disconnect \<notin> set (sent s s1))
   \<and> (call (fn Wired s) (deregistered s) = (Inr (), s1)
       \<and> call (fn Wireless s) (register Wired Noop s1) = (Inl e, s2) \<longrightarrow>
      teardown This_manager sig s = (Inl e, s2)
      \<and> connected s2 = connected s \<and> exit_code s2 = exit_code s \<and> console s2 = console s
      \<and> fn Wireless s2 = fn Wireless s \<and> Disconnect \<notin> set (sent s s2))
   \<and> (call (fn Wired s) (deregistered s) = (Inr (), s1)
       \<and> call (fn Wireless s) (register Wired Noop s1) = (Inr (), s2) \<longrightarrow>
      (\<exists>s'. teardown This_manager sig s = (Inr (), s')
            \<and> fn Wired s' = Noop \<and> fn Wireless s' = Noop \<and> \<not> connected s'
            \<and> sent s s' = sent s s2 @ [Disconnect]
            \<and> exit_code s' =
                (case sig of None \<Rightarrow> exit_code s | Some g \<Rightarrow> Some (128 + signals g))))
   \<and> (quiet s \<longrightarrow>
      (\<exists>s'. teardown This_manager sig s = (Inr (), s')
            \<and> fn Wired s' = Noop \<and> fn Wireless s' = Noop \<and> \<not> connected s'))
   \<and> (fn Wired s = Noop \<and> fn Wireless s = Noop \<longrightarrow>
        (\<exists>s'. teardown This_manager sig s = (Inr (), s') \<and> sent s s' = [Disconnect]))"
proof (intro conjI impI)
  assume c: "call (fn Wired s) (deregistered s) = (Inl e, s1)"
  then have "run Wired (deregistered s) = (Inl e, s1)"
    using run_call_rejected [of Wired "deregistered s" e s1] by simp
  then show "teardown This_manager sig s = (Inl e, s1)"
    by (simp add: teardown_manager await_def)
  from call_untouched(1-3,5) [OF c] call_untouched(4) [OF c, of Wired]
    call_untouched(4) [OF c, of Wireless]
  show "connected s1 = connected s" "exit_code s1 = exit_code s" "console s1 = console s"
    "fn Wired s1 = fn Wired s" "fn Wireless s1 = fn Wireless s"
    "Disconnect \<notin> set (sent s s1)"
    by simp_all
next
  assume h: "call (fn Wired s) (deregistered s) = (Inr (), s1)
       \<and> call (fn Wireless s) (register Wired Noop s1) = (Inl e, s2)"
  then have c1: "call (fn Wired s) (deregistered s) = (Inr (), s1)"
    and c2: "call (fn Wireless s) (register Wired Noop s1) = (Inl e, s2)" by simp_all
  have r1: "run Wired (deregistered s) = (Inr (), register Wired Noop s1)"
    using run_call_resolved [of Wired "deregistered s" s1] c1 by simp
  have fw: "fn Wireless (register Wired Noop s1) = fn Wireless s"
    using call_untouched(4) [OF c1, of Wireless] by (simp add: register_other)
  have r2: "run Wireless (register Wired Noop s1) = (Inl e, s2)"
    using run_call_rejected [of Wireless "register Wired Noop s1" e s2] c2 fw by simp
  show "teardown This_manager sig s = (Inl e, s2)"
    using r1 r2 by (simp add: teardown_manager await_def)
  from call_untouched(1-3) [OF c1] call_untouched(1-3) [OF c2]
  show "connected s2 = connected s" "exit_code s2 = exit_code s" "console s2 = console s"
    by simp_all
  from call_untouched(4) [OF c2, of Wireless] fw
  show "fn Wireless s2 = fn Wireless s" by simp
  have "sent (deregistered s) s2 = sent (deregistered s) s1 @ sent s1 s2"
    using c1 c2 by (rule sent_trans)
  moreover have "Disconnect \<notin> set (sent s1 s2)"
    using call_untouched(5) [OF c2] by (simp add: sent_def)
  ultimately show "Disconnect \<notin> set (sent s s2)"
    using call_untouched(5) [OF c1] by simp
next
  assume h: "call (fn Wired s) (deregistered s) = (Inr (), s1)
       \<and> call (fn Wireless s) (register Wired Noop s1) = (Inr (), s2)"
  then have c1: "call (fn Wired s) (deregistered s) = (Inr (), s1)"
    and c2: "call (fn Wireless s) (register Wired Noop s1) = (Inr (), s2)" by simp_all
  have r1: "run Wired (deregistered s) = (Inr (), register Wired Noop s1)"
    using run_call_resolved [of Wired "deregistered s" s1] c1 by simp
  have fw: "fn Wireless (register Wired Noop s1) = fn Wireless s"
    using call_untouched(4) [OF c1, of Wireless] by (simp add: register_other)
  have r2: "run Wireless (register Wired Noop s1) = (Inr (), register Wireless Noop s2)"
    using run_call_resolved [of Wireless "register Wired Noop s1" s2] c2 fw by simp
  have f2: "fn Wired s2 = Noop"
    using call_untouched(4) [OF c2, of Wired] by simp
  have x: "exit_code s2 = exit_code s"
    using call_untouched(2) [OF c1] call_untouched(2) [OF c2] by simp
  have "requests (\<lambda>_. True) (deregistered s) s2"
  proof -
    have "requests (\<lambda>_. True) (deregistered s) s1"
      using c1 by (intro effect_requests call_effect [where res = "Inr ()"]) simp_all
    moreover have "requests (\<lambda>_. True) (register Wired Noop s1) s2"
      using c2 by (intro effect_requests call_effect [where res = "Inr ()"]) simp_all
    then have "requests (\<lambda>_. True) s1 s2" by (simp add: requests_def sent_def)
    ultimately show ?thesis by (rule requests_trans)
  qed
  then have cs: "calls s2 = calls s @ sent s s2" by (simp add: requests_def)
  let ?d = "disconnect (register Wireless Noop s2)"
  let ?f = "case sig of None \<Rightarrow> ?d | Some g \<Rightarrow> exit (128 + signals g) ?d"
  have t: "teardown This_manager sig s = (Inr (), ?f)"
  proof (cases sig)
    case None
    then show ?thesis using r1 r2 by (simp add: teardown_manager await_def)
  next
    case (Some g)
    then show ?thesis using r1 r2 by (cases g) (simp_all add: teardown_manager await_def)
  qed
  have "calls ?f = calls s2 @ [Disconnect]"
    by (cases sig) (simp_all add: disconnect_def exit_def)
  then have "calls ?f = calls s @ (sent s s2 @ [Disconnect])"
    using cs by simp
  then have snt: "sent s ?f = sent s s2 @ [Disconnect]" by (rule sent_eq)
  have "fn Wired ?f = Noop" "fn Wireless ?f = Noop" "\<not> connected ?f"
    using f2 by (cases sig; simp add: disconnect_def exit_def register_other)+
  moreover have "exit_code ?f =
      (case sig of None \<Rightarrow> exit_code s | Some g \<Rightarrow> Some (128 + signals g))"
    using x by (cases sig) (simp_all add: disconnect_def exit_def)
  ultimately show "\<exists>s'. teardown This_manager sig s = (Inr (), s')
            \<and> fn Wired s' = Noop \<and> fn Wireless s' = Noop \<and> \<not> connected s'
            \<and> sent s s' = sent s s2 @ [Disconnect]
            \<and> exit_code s' =
                (case sig of None \<Rightarrow> exit_code s | Some g \<Rightarrow> Some (128 + signals g))"
    using t snt by blast
next
  assume q: "quiet s"
  then have "quiet (deregistered s)" by (simp add: quiet_def)
  from run_quiet [OF this, of Wired]
  obtain s1 where s1: "run Wired (deregistered s) = (Inr (), s1)" "quiet s1" "fn Wired s1 = Noop"
    by blast
  from run_quiet [OF s1(2), of Wireless]
  obtain s2 where s2: "run Wireless s1 = (Inr (), s2)" "fn Wireless s2 = Noop"
    "fn Wired s2 = fn Wired s1"
    by auto
  show "\<exists>s'. teardown This_manager sig s = (Inr (), s')
            \<and> fn Wired s' = Noop \<and> fn Wireless s' = Noop \<and> \<not> connected s'"
    using s1 s2 by (simp add: teardown_manager await_def disconnect_def exit_def)
next
  assume "fn Wired s = Noop \<and> fn Wireless s = Noop"
  then have "run Wired (deregistered s) = (Inr (), deregistered s)"
    "run Wireless (deregistered s) = (Inr (), deregistered s)"
    by (simp_all add: run_Noop)
  then show "\<exists>s'. teardown This_manager sig s = (Inr (), s') \<and> sent s s' = [Disconnect]"
    by (simp add: teardown_manager await_def disconnect_def exit_def sent_def)
qed

theorem C1_teardown_outcomes_witness:
  "call (fn Wired (both_up [True])) (deregistered (both_up [True])) =
      (Inl (DBusError (GetProxyObject ActiveConnection_path)),
       snd (call (fn Wired (both_up [True])) (deregistered (both_up [True]))))
   \<and> teardown This_manager (Some SIGINT) (both_up [True]) =
      (Inl (DBusError (GetProxyObject ActiveConnection_path)),
       snd (call (fn Wired (both_up [True])) (deregistered (both_up [True]))))
   \<and> call (fn Wired (both_up [False, False, False, False, False, False, True]))
        (deregistered (both_up [False, False, False, False, False, False, True])) =
      (Inr (), snd (call (fn Wired (both_up [False, False, False, False, False, False, True]))
                      (deregistered (both_up [False, False, False, False, False, False, True]))))
   \<and> call (fn Wireless (both_up [False, False, False, False, False, False, True]))
        (register Wired Noop
           (snd (call (fn Wired (both_up [False, False, False, False, False, False, True]))
                   (deregistered (both_up [False, False, False, False, False, False, True]))))) =
      (Inl (DBusError (GetProxyObject ActiveConnection_path)),
       snd (call (fn Wireless (both_up [False, False, False, False, False, False, True]))
              (register Wired Noop
                 (snd (call (fn Wired (both_up [False, False, False, False, False, False, True]))
                         (deregistered (both_up [False, False, False, False, False, False, True])))))))
   \<and> teardown This_manager (Some SIGTERM) (both_up [False, False, False, False, False, False, True]) =
      (Inl (DBusError (GetProxyObject ActiveConnection_path)),
       snd (call (fn Wireless (both_up [False, False, False, False, False, False, True]))
              (register Wired Noop
                 (snd (call (fn Wired (both_up [False, False, False, False, False, False, True]))
                         (deregistered (both_up [False, False, False, False, False, False, True])))))))
   \<and> call (fn Wired (both_up [])) (deregistered (both_up [])) =
      (Inr (), snd (call (fn Wired (both_up [])) (deregistered (both_up []))))
   \<and> call (fn Wireless (both_up []))
        (register Wired Noop (snd (call (fn Wired (both_up [])) (deregistered (both_up []))))) =
      (Inr (), snd (call (fn Wireless (both_up []))
                      (register Wired Noop
                         (snd (call (fn Wired (both_up [])) (deregistered (both_up [])))))))
   \<and> (\<exists>s'. teardown This_manager (Some SIGINT) (both_up []) = (Inr (), s')
          \<and> fn Wired s' = Noop \<and> fn Wireless s' = Noop \<and> \<not> connected s'
          \<and> exit_code s' = Some 130)
   \<and> quiet (both_up [])
   \<and> (\<exists>s'. teardown This_manager None (both_up []) = (Inr (), s')
          \<and> fn Wired s' = Noop \<and> fn Wireless s' = Noop \<and> \<not> connected s')
   \<and> fn Wired (NetworkManager eth0_wlan0 (boot [True] [])) = Noop
   \<and> fn Wireless (NetworkManager eth0_wlan0 (boot [True] [])) = Noop
   \<and> (\<exists>s'. teardown This_manager None (NetworkManager eth0_wlan0 (boot [True] [])) = (Inr (), s')
          \<and> sent (NetworkManager eth0_wlan0 (boot [True] [])) s' = [Disconnect])"
proof -
  let ?e = "DBusError (GetProxyObject ActiveConnection_path)"
  let ?a = "both_up [True]"
  let ?a1 = "snd (call (fn Wired ?a) (deregistered ?a))"
  let ?b = "both_up [False, False, False, False, False, False, True]"
  let ?b1 = "snd (call (fn Wired ?b) (deregistered ?b))"
  let ?b2 = "snd (call (fn Wireless ?b) (register Wired Noop ?b1))"
  let ?c = "both_up []"
  let ?c1 = "snd (call (fn Wired ?c) (deregistered ?c))"
  let ?c2 = "snd (call (fn Wireless ?c) (register Wired Noop ?c1))"
  let ?i = "NetworkManager eth0_wlan0 (boot [True] [])"
  have "fst (call (fn Wired ?a) (deregistered ?a)) = Inl ?e"
    by (simp add: call_eval)
  then have ha: "call (fn Wired ?a) (deregistered ?a) = (Inl ?e, ?a1)"
    by (simp add: prod_eq_iff)
  have "fst (call (fn Wired ?b) (deregistered ?b)) = Inr ()"
    by (simp add: call_eval)
  then have hb1: "call (fn Wired ?b) (deregistered ?b) = (Inr (), ?b1)"
    by (simp add: prod_eq_iff)
  have "fst (call (fn Wireless ?b) (register Wired Noop ?b1)) = Inl ?e"
    by (simp add: call_eval)
  then have hb2: "call (fn Wireless ?b) (register Wired Noop ?b1) = (Inl ?e, ?b2)"
    by (simp add: prod_eq_iff)
  have "fst (call (fn Wired ?c) (deregistered ?c)) = Inr ()"
    by (simp add: call_eval)
  then have hc1: "call (fn Wired ?c) (deregistered ?c) = (Inr (), ?c1)"
    by (simp add: prod_eq_iff)
  have "fst (call (fn Wireless ?c) (register Wired Noop ?c1)) = Inr ()"
    by (simp add: call_eval)
  then have hc2: "call (fn Wireless ?c) (register Wired Noop ?c1) = (Inr (), ?c2)"
    by (simp add: prod_eq_iff)
  have q: "quiet ?c"
    by (simp add: both_up_eq quiet_def)
  have idle: "fn Wired ?i = Noop \<and> fn Wireless ?i = Noop"
    by (simp add: NetworkManager_def boot_def on_def)
  note ta = C1_teardown_outcomes [where s = ?a and e = ?e and ?s1.0 = ?a1 and sig = "Some SIGINT",
      THEN conjunct1, THEN mp, OF ha, THEN conjunct1]
  note tb = C1_teardown_outcomes [where s = ?b and e = ?e and ?s1.0 = ?b1 and ?s2.0 = ?b2
      and sig = "Some SIGTERM",
      THEN conjunct2, THEN conjunct1, THEN mp, OF conjI [OF hb1 hb2], THEN conjunct1]
  have tc: "\<exists>s'. teardown This_manager (Some SIGINT) ?c = (Inr (), s')
          \<and> fn Wired s' = Noop \<and> fn Wireless s' = Noop \<and> \<not> connected s'
          \<and> exit_code s' = Some 130"
    using C1_teardown_outcomes [where s = ?c and ?s1.0 = ?c1 and ?s2.0 = ?c2 and sig = "Some SIGINT",
      THEN conjunct2, THEN conjunct2, THEN conjunct1, THEN mp, OF conjI [OF hc1 hc2]]
    by auto
  note tq = C1_teardown_outcomes [where s = ?c and sig = None,
      THEN conjunct2, THEN conjunct2, THEN conjunct2, THEN conjunct1, THEN mp, OF q]
  note ti = C1_teardown_outcomes [where s = ?i and sig = None,
      THEN conjunct2, THEN conjunct2, THEN conjunct2, THEN conjunct2, THEN mp, OF idle]
  from ha ta hb1 hb2 tb hc1 hc2 tc q tq idle ti show ?thesis
    by (intro conjI) (erule conjE | assumption)+
qed

text \<open>
  Claim C2, as stated: after \<^verbatim>\<open>Teardown.run()\<close> returns, normally or by propagating the
  action's error, the held action has been reset to a no-op, so that a second \<^verbatim>\<open>run()\<close>
  performs no reversal call.  It fails when the action raises: with the wired connection up
  and the bus rejecting the first request of the reversal, \<^verbatim>\<open>run()\<close> propagates the error,
  the closure is still held, and a second \<^verbatim>\<open>run()\<close> sends all six requests of the reversal.
\<close>

theorem C2_run_keeps_failed_action:
  "fst (run Wired (wired_up [True])) = Inl (DBusError (GetProxyObject ActiveConnection_path))
   \<and> fn Wired (snd (run Wired (wired_up [True]))) = Reversal (Active 1) (Profile 0)
   \<and> sent (snd (run Wired (wired_up [True])))
           (snd (run Wired (snd (run Wired (wired_up [True]))))) =
       [GetProxyObject ActiveConnection_path, GetProxyObject Manager_path,
        DeactivateConnection (Active 1), GetProxyObject Settings_path,
        GetProxyObject (Profile 0), Delete (Profile 0)]"
  by (simp add: wired_up_eq run_def deactivateConnection_def removeConnection_def rejects_def
      unfold_bus sent_def)

text \<open>
  Claim C2, amended: when \<^verbatim>\<open>run()\<close> returns normally the held action has been reset to the
  no-op, and a second \<^verbatim>\<open>run()\<close> returns normally without touching anything; \<^verbatim>\<open>run()\<close>
  returns normally whenever the action does.  When the action raises, \<^verbatim>\<open>run()\<close> propagates
  that error in the state the action left, the action, which is not the no-op, stays held,
  and a second \<^verbatim>\<open>run()\<close> invokes it again: it ends as the action ends and sends what the
  action sends.
\<close>

theorem C2_run_resets_on_success:
  "(run m s = (Inr (), s') \<longrightarrow> fn m s' = Noop \<and> run m s' = (Inr (), s'))
   \<and> (call (fn m s) s = (Inr (), s1) \<longrightarrow> run m s = (Inr (), register m Noop s1))
   \<and> (call (fn m s) s = (Inl e, s1) \<longrightarrow>
        run m s = (Inl e, s1) \<and> fn m s1 = fn m s \<and> fn m s \<noteq> Noop)
   \<and> (call (fn m s) s = (Inl e, s1) \<and> call (fn m s) s1 = (r, s2) \<longrightarrow>
        fst (run m s1) = r \<and> sent s1 (snd (run m s1)) = sent s1 s2)"
proof (intro conjI impI)
  assume "run m s = (Inr (), s')"
  then obtain s1 where "s' = register m Noop s1" by (rule run_resolved)
  then show "fn m s' = Noop" by simp
  then show "run m s' = (Inr (), s')" by (rule run_Noop)
next
  assume "call (fn m s) s = (Inr (), s1)"
  then show "run m s = (Inr (), register m Noop s1)"
    by (simp add: run_def await_def)
next
  assume c: "call (fn m s) s = (Inl e, s1)"
  then show "run m s = (Inl e, s1)"
    by (simp add: run_def await_def)
  from c have "bus_only s s1" by (rule call_bus_only)
  then show "fn m s1 = fn m s" by (rule bus_only_fn)
  from c show "fn m s \<noteq> Noop" by (auto simp: resolve_def)
next
  assume h: "call (fn m s) s = (Inl e, s1) \<and> call (fn m s) s1 = (r, s2)"
  then have "bus_only s s1" by (blast intro: call_bus_only)
  then have f: "fn m s1 = fn m s" by (rule bus_only_fn)
  have "run m s1 = (case r of Inl e' \<Rightarrow> (Inl e', s2) | Inr u \<Rightarrow> (Inr (), register m Noop s2))"
    using h by (simp add: run_def await_def f split: sum.splits)
  then show "fst (run m s1) = r" "sent s1 (snd (run m s1)) = sent s1 s2"
    by (cases r; simp add: sent_def)+
qed

theorem C2_run_resets_on_success_witness:
  "call (fn Wired (wired_up [])) (wired_up []) =
      (Inr (), snd (call (fn Wired (wired_up [])) (wired_up [])))
   \<and> run Wired (wired_up []) =
      (Inr (), register Wired Noop (snd (call (fn Wired (wired_up [])) (wired_up []))))
   \<and> fn Wired (register Wired Noop (snd (call (fn Wired (wired_up [])) (wired_up [])))) = Noop
   \<and> run Wired (register Wired Noop (snd (call (fn Wired (wired_up [])) (wired_up [])))) =
      (Inr (), register Wired Noop (snd (call (fn Wired (wired_up [])) (wired_up []))))
   \<and> call (fn Wired (wired_up [True])) (wired_up [True]) =
        (Inl (DBusError (GetProxyObject ActiveConnection_path)),
         snd (call (fn Wired (wired_up [True])) (wired_up [True])))
   \<and> run Wired (wired_up [True]) =
        (Inl (DBusError (GetProxyObject ActiveConnection_path)),
         snd (call (fn Wired (wired_up [True])) (wired_up [True])))
   \<and> fn Wired (snd (call (fn Wired (wired_up [True])) (wired_up [True]))) =
        fn Wired (wired_up [True])
   \<and> fn Wired (wired_up [True]) \<noteq> Noop
   \<and> call (fn Wired (wired_up [True]))
          (snd (call (fn Wired (wired_up [True])) (wired_up [True]))) =
        (Inr (), snd (call (fn Wired (wired_up [True]))
                        (snd (call (fn Wired (wired_up [True])) (wired_up [True])))))
   \<and> fst (run Wired (snd (call (fn Wired (wired_up [True])) (wired_up [True])))) = Inr ()
   \<and> sent (snd (call (fn Wired (wired_up [True])) (wired_up [True])))
           (snd (run Wired (snd (call (fn Wired (wired_up [True])) (wired_up [True]))))) =
      sent (snd (call (fn Wired (wired_up [True])) (wired_up [True])))
           (snd (call (fn Wired (wired_up [True]))
                   (snd (call (fn Wired (wired_up [True])) (wired_up [True])))))"
proof -
  let ?ok = "snd (call (fn Wired (wired_up [])) (wired_up []))"
  let ?bad = "snd (call (fn Wired (wired_up [True])) (wired_up [True]))"
  let ?again = "snd (call (fn Wired (wired_up [True])) ?bad)"
  let ?e = "DBusError (GetProxyObject ActiveConnection_path)"
  have "fst (call (fn Wired (wired_up [])) (wired_up [])) = Inr ()"
    by (simp add: wired_up_eq deactivateConnection_def removeConnection_def rejects_def
        unfold_bus)
  then have h1: "call (fn Wired (wired_up [])) (wired_up []) = (Inr (), ?ok)"
    by (simp add: prod_eq_iff)
  have "fst (call (fn Wired (wired_up [True])) (wired_up [True])) = Inl ?e"
    by (simp add: wired_up_eq deactivateConnection_def removeConnection_def rejects_def
        unfold_bus)
  then have h2: "call (fn Wired (wired_up [True])) (wired_up [True]) = (Inl ?e, ?bad)"
    by (simp add: prod_eq_iff)
  have "fst (call (fn Wired (wired_up [True])) ?bad) = Inr ()"
    by (simp add: wired_up_eq deactivateConnection_def removeConnection_def rejects_def
        unfold_bus)
  then have h3: "call (fn Wired (wired_up [True])) ?bad = (Inr (), ?again)"
    by (simp add: prod_eq_iff)
  note t1 = C2_run_resets_on_success [where m = Wired and s = "wired_up []" and ?s1.0 = ?ok,
      THEN conjunct2, THEN conjunct1, THEN mp, OF h1]
  note t0 = C2_run_resets_on_success [where m = Wired and s = "wired_up []"
      and s' = "register Wired Noop ?ok", THEN conjunct1, THEN mp, OF t1]
  note t2 = C2_run_resets_on_success [where m = Wired and s = "wired_up [True]" and e = ?e and ?s1.0 = ?bad,
      THEN conjunct2, THEN conjunct2, THEN conjunct1, THEN mp, OF h2]
  note t3 = C2_run_resets_on_success [where m = Wired and s = "wired_up [True]" and e = ?e and ?s1.0 = ?bad
      and r = "Inr ()" and ?s2.0 = ?again,
      THEN conjunct2, THEN conjunct2, THEN conjunct2, THEN mp, OF conjI [OF h2 h3]]
  from h1 t1 t0 h2 t2 h3 t3 show ?thesis
    by (intro conjI) (erule conjE | assumption)+
qed

text \<open>
  Claim C3: on delivery of \<^verbatim>\<open>SIGINT\<close> or \<^verbatim>\<open>SIGTERM\<close> the installed handler deregisters
  itself for both signals, invokes both Teardown Actions once each and ends the process with
  exit code 128 + signal number.  The constructor installs the unbound method
  \<^verbatim>\<open>this.teardown\<close>, so the emitter calls it with \<^verbatim>\<open>this\<close> bound to \<^verbatim>\<open>process\<close>: the first
  statement, \<^verbatim>\<open>process.removeListener('SIGINT', this.teardown)\<close>, throws.  With the wired
  connection up, delivery of \<^verbatim>\<open>SIGINT\<close> leaves the process running, both listeners
  installed, the wired closure held and its connection active, sends nothing over the bus,
  and leaves one unhandled rejection.
\<close>

theorem C3_signal_listener_rejects:
  "exit_code (deliver sig (wired_up [])) = None
   \<and> listeners SIGINT (deliver sig (wired_up [])) = [Teardown_method]
   \<and> listeners SIGTERM (deliver sig (wired_up [])) = [Teardown_method]
   \<and> fn Wired (deliver sig (wired_up [])) = Reversal (Active 1) (Profile 0)
   \<and> actives (deliver sig (wired_up [])) = [Active 1]
   \<and> sent (wired_up []) (deliver sig (wired_up [])) = []
   \<and> unhandled (deliver sig (wired_up [])) =
        [TypeError ''The listener argument must be of type function'']"
  by (cases sig)
     (simp_all add: wired_up_eq deliver_def teardown_def removeListener_def await_def sent_def)

text \<open>
  Claim C4, as stated: when a step after the initial teardown fails, the Mode stays idle,
  the error propagates, and the profile already registered is cleaned up on a best-effort
  basis.  The last part fails: when the bus rejects the third request of
  \<^verbatim>\<open>addWiredConnection({nat: true})\<close> (the proxy for device resolution), the call raises
  with the profile registered, sends no \<^verbatim>\<open>Delete\<close> or \<^verbatim>\<open>DeactivateConnection\<close>, holds no
  Teardown Action, and a later \<^verbatim>\<open>teardown()\<close> leaves the profile where it is.
\<close>

theorem C4_profile_left_behind:
  "fst (addWiredConnection (Some True) leaking) = Inl (DBusError (GetProxyObject Manager_path))
   \<and> profiles (snd (addWiredConnection (Some True) leaking)) = [Profile 0]
   \<and> filter cleanup_call (sent leaking (snd (addWiredConnection (Some True) leaking))) = []
   \<and> fn Wired (snd (addWiredConnection (Some True) leaking)) = Noop
   \<and> profiles (snd (teardown This_manager None (snd (addWiredConnection (Some True) leaking))))
       = [Profile 0]"
  by (simp add: leaking_eq teardown_manager deregistered_def run_def await_def resolve_def
      disconnect_def)
     (simp add: leaking_def eval_defs)

text \<open>
  Claim C4, amended: let the initial teardown of \<^verbatim>\<open>addWiredConnection\<close> or
  \<^verbatim>\<open>addWirelessConnection\<close> have succeeded.  Whichever step then fails (the registration of
  the profile, the resolution of the device, or the activation), the call raises the error
  of that step, in the state that step left.  The Mode stays idle (the held action is the
  no-op) and the active connections are unchanged.  No cleanup is attempted: the failing
  request is the last one sent, no request after the teardown deletes or deactivates
  anything, and when the registration had succeeded the new profile is still registered.
\<close>

theorem C4_failed_add_leaves_idle:
  "(options s = Some opts \<and> options_wired opts = Some iface \<and> run Wired s = (Inr (), s1)
      \<and> wiredTemplate (js (if nat_flag then ''shared'' else ''link-local'')) s1 = (d, s2) \<longrightarrow>
      (addConnection d s2 = (Inl e, s') \<longrightarrow>
         addWiredConnection (Some nat_flag) s = (Inl e, s') \<and> profiles s' = profiles s1
         \<and> fn Wired s' = Noop \<and> actives s' = actives s1
         \<and> list_all (\<lambda>c. \<not> cleanup_call c) (sent s1 s')
         \<and> sent s1 s' \<noteq> [] \<and> e = DBusError (last (sent s1 s')))
      \<and> (addConnection d s2 = (Inr conn, s3) \<and> getDevice iface s3 = (Inl e, s') \<longrightarrow>
         addWiredConnection (Some nat_flag) s = (Inl e, s') \<and> profiles s' = profiles s1 @ [conn]
         \<and> fn Wired s' = Noop \<and> actives s' = actives s1
         \<and> list_all (\<lambda>c. \<not> cleanup_call c) (sent s1 s')
         \<and> sent s1 s' \<noteq> [] \<and> e = DBusError (last (sent s1 s')))
      \<and> (addConnection d s2 = (Inr conn, s3) \<and> getDevice iface s3 = (Inr dev, s4)
          \<and> activateConnection conn dev s4 = (Inl e, s') \<longrightarrow>
         addWiredConnection (Some nat_flag) s = (Inl e, s') \<and> profiles s' = profiles s1 @ [conn]
         \<and> fn Wired s' = Noop \<and> actives s' = actives s1
         \<and> list_all (\<lambda>c. \<not> cleanup_call c) (sent s1 s')
         \<and> sent s1 s' \<noteq> [] \<and> e = DBusError (last (sent s1 s'))))
   \<and> (options s = Some opts \<and> options_wireless opts = Some iface
      \<and> run Wireless s = (Inr (), s1)
      \<and> wirelessTemplate (js (if nat_flag then ''shared'' else ''link-local'')) ssid (Some psk) s1
          = (d, s2) \<longrightarrow>
      (addConnection d s2 = (Inl e, s') \<longrightarrow>
         addWirelessConnection (Some ssid) (Some psk) (Some nat_flag) s = (Inl e, s')
         \<and> profiles s' = profiles s1
         \<and> fn Wireless s' = Noop \<and> actives s' = actives s1
         \<and> list_all (\<lambda>c. \<not> cleanup_call c) (sent s1 s')
         \<and> sent s1 s' \<noteq> [] \<and> e = DBusError (last (sent s1 s')))
      \<and> (addConnection d s2 = (Inr conn, s3) \<and> getDevice iface s3 = (Inl e, s') \<longrightarrow>
         addWirelessConnection (Some ssid) (Some psk) (Some nat_flag) s = (Inl e, s')
         \<and> profiles s' = profiles s1 @ [conn]
         \<and> fn Wireless s' = Noop \<and> actives s' = actives s1
         \<and> list_all (\<lambda>c. \<not> cleanup_call c) (sent s1 s')
         \<and> sent s1 s' \<noteq> [] \<and> e = DBusError (last (sent s1 s')))
      \<and> (addConnection d s2 = (Inr conn, s3) \<and> getDevice iface s3 = (Inr dev, s4)
          \<and> activateConnection conn dev s4 = (Inl e, s') \<longrightarrow>
         addWirelessConnection (Some ssid) (Some psk) (Some nat_flag) s = (Inl e, s')
         \<and> profiles s' = profiles s1 @ [conn]
         \<and> fn Wireless s' = Noop \<and> actives s' = actives s1
         \<and> list_all (\<lambda>c. \<not> cleanup_call c) (sent s1 s')
         \<and> sent s1 s' \<noteq> [] \<and> e = DBusError (last (sent s1 s'))))"
proof (rule conjI; rule impI)
  assume h: "options s = Some opts \<and> options_wired opts = Some iface
      \<and> run Wired s = (Inr (), s1)
      \<and> wiredTemplate (js (if nat_flag then ''shared'' else ''link-local'')) s1 = (d, s2)"
  then have o: "options s = Some opts" "options_wired opts = Some iface"
    and r: "run Wired s = (Inr (), s1)"
    and d: "wiredTemplate (js (if nat_flag then ''shared'' else ''link-local'')) s1 = (d, s2)"
    by simp_all
  note eq = addWiredConnection_after_run [OF o r, of nat_flag]
  let ?l = "js ''Wired AP; IFACE: '' @ iface"
  note f1 = failed_step(1) [OF r wiredTemplate_like d, where e = e and z' = s' and i = iface
      and l = ?l]
  note f2 = failed_step(2) [OF r wiredTemplate_like d, where e = e and z' = s' and i = iface
      and l = ?l and conn = conn and ?z3.0 = s3]
  note f3 = failed_step(3) [OF r wiredTemplate_like d, where e = e and z' = s' and i = iface
      and l = ?l and conn = conn and ?z3.0 = s3 and dev = dev and ?z4.0 = s4]
  show "(addConnection d s2 = (Inl e, s') \<longrightarrow>
         addWiredConnection (Some nat_flag) s = (Inl e, s') \<and> profiles s' = profiles s1
         \<and> fn Wired s' = Noop \<and> actives s' = actives s1
         \<and> list_all (\<lambda>c. \<not> cleanup_call c) (sent s1 s')
         \<and> sent s1 s' \<noteq> [] \<and> e = DBusError (last (sent s1 s')))
      \<and> (addConnection d s2 = (Inr conn, s3) \<and> getDevice iface s3 = (Inl e, s') \<longrightarrow>
         addWiredConnection (Some nat_flag) s = (Inl e, s') \<and> profiles s' = profiles s1 @ [conn]
         \<and> fn Wired s' = Noop \<and> actives s' = actives s1
         \<and> list_all (\<lambda>c. \<not> cleanup_call c) (sent s1 s')
         \<and> sent s1 s' \<noteq> [] \<and> e = DBusError (last (sent s1 s')))
      \<and> (addConnection d s2 = (Inr conn, s3) \<and> getDevice iface s3 = (Inr dev, s4)
          \<and> activateConnection conn dev s4 = (Inl e, s') \<longrightarrow>
         addWiredConnection (Some nat_flag) s = (Inl e, s') \<and> profiles s' = profiles s1 @ [conn]
         \<and> fn Wired s' = Noop \<and> actives s' = actives s1
         \<and> list_all (\<lambda>c. \<not> cleanup_call c) (sent s1 s')
         \<and> sent s1 s' \<noteq> [] \<and> e = DBusError (last (sent s1 s')))"
    unfolding eq using f1 f2 f3 by (intro conjI)
next
  assume h: "options s = Some opts \<and> options_wireless opts = Some iface
      \<and> run Wireless s = (Inr (), s1)
      \<and> wirelessTemplate (js (if nat_flag then ''shared'' else ''link-local'')) ssid (Some psk) s1
          = (d, s2)"
  then have o: "options s = Some opts" "options_wireless opts = Some iface"
    and r: "run Wireless s = (Inr (), s1)"
    and d: "wirelessTemplate (js (if nat_flag then ''shared'' else ''link-local'')) ssid
              (Some psk) s1 = (d, s2)"
    by simp_all
  note eq = addWirelessConnection_after_run [OF o r, of ssid psk nat_flag]
  let ?l = "js ''Wireless AP; SSID: '' @ ssid @ js '' IFACE: '' @ iface"
  note f1 = failed_step(1) [OF r wirelessTemplate_like d, where e = e and z' = s' and i = iface
      and l = ?l]
  note f2 = failed_step(2) [OF r wirelessTemplate_like d, where e = e and z' = s' and i = iface
      and l = ?l and conn = conn and ?z3.0 = s3]
  note f3 = failed_step(3) [OF r wirelessTemplate_like d, where e = e and z' = s' and i = iface
      and l = ?l and conn = conn and ?z3.0 = s3 and dev = dev and ?z4.0 = s4]
  show "(addConnection d s2 = (Inl e, s') \<longrightarrow>
         addWirelessConnection (Some ssid) (Some psk) (Some nat_flag) s = (Inl e, s')
         \<and> profiles s' = profiles s1
         \<and> fn Wireless s' = Noop \<and> actives s' = actives s1
         \<and> list_all (\<lambda>c. \<not> cleanup_call c) (sent s1 s')
         \<and> sent s1 s' \<noteq> [] \<and> e = DBusError (last (sent s1 s')))
      \<and> (addConnection d s2 = (Inr conn, s3) \<and> getDevice iface s3 = (Inl e, s') \<longrightarrow>
         addWirelessConnection (Some ssid) (Some psk) (Some nat_flag) s = (Inl e, s')
         \<and> profiles s' = profiles s1 @ [conn]
         \<and> fn Wireless s' = Noop \<and> actives s' = actives s1
         \<and> list_all (\<lambda>c. \<not> cleanup_call c) (sent s1 s')
         \<and> sent s1 s' \<noteq> [] \<and> e = DBusError (last (sent s1 s')))
      \<and> (addConnection d s2 = (Inr conn, s3) \<and> getDevice iface s3 = (Inr dev, s4)
          \<and> activateConnection conn dev s4 = (Inl e, s') \<longrightarrow>
         addWirelessConnection (Some ssid) (Some psk) (Some nat_flag) s = (Inl e, s')
         \<and> profiles s' = profiles s1 @ [conn]
         \<and> fn Wireless s' = Noop \<and> actives s' = actives s1
         \<and> list_all (\<lambda>c. \<not> cleanup_call c) (sent s1 s')
         \<and> sent s1 s' \<noteq> [] \<and> e = DBusError (last (sent s1 s')))"
    unfolding eq using f1 f2 f3 by (intro conjI)
qed

theorem C4_failed_add_leaves_idle_witness:
  "run Wired add_failing = (Inr (), add_failing)
   \<and> addConnection (fst (wiredTemplate (js ''shared'') (boot [] []))) add_failing = (Inl (DBusError (GetProxyObject Settings_path)), snd (addConnection (fst (wiredTemplate (js ''shared'') (boot [] []))) add_failing))
   \<and> addWiredConnection (Some True) add_failing = (Inl (DBusError (GetProxyObject Settings_path)), snd (addConnection (fst (wiredTemplate (js ''shared'') (boot [] []))) add_failing))
   \<and> profiles (snd (addConnection (fst (wiredTemplate (js ''shared'') (boot [] []))) add_failing)) = profiles add_failing
   \<and> run Wired leaking = (Inr (), leaking)
   \<and> addConnection (fst (wiredTemplate (js ''shared'') (boot [] []))) leaking = (Inr (Profile 0), snd (addConnection (fst (wiredTemplate (js ''shared'') (boot [] []))) leaking))
   \<and> getDevice (js ''eth0'') (snd (addConnection (fst (wiredTemplate (js ''shared'') (boot [] []))) leaking)) = (Inl (DBusError (GetProxyObject Manager_path)), snd (getDevice (js ''eth0'') (snd (addConnection (fst (wiredTemplate (js ''shared'') (boot [] []))) leaking))))
   \<and> addWiredConnection (Some True) leaking = (Inl (DBusError (GetProxyObject Manager_path)), snd (getDevice (js ''eth0'') (snd (addConnection (fst (wiredTemplate (js ''shared'') (boot [] []))) leaking))))
   \<and> profiles (snd (getDevice (js ''eth0'') (snd (addConnection (fst (wiredTemplate (js ''shared'') (boot [] []))) leaking)))) = profiles leaking @ [Profile 0]
   \<and> run Wired wlan_failing = (Inr (), wlan_failing)
   \<and> addConnection (fst (wiredTemplate (js ''shared'') (boot [] []))) wlan_failing = (Inr (Profile 0), snd (addConnection (fst (wiredTemplate (js ''shared'') (boot [] []))) wlan_failing))
   \<and> getDevice (js ''eth0'') (snd (addConnection (fst (wiredTemplate (js ''shared'') (boot [] []))) wlan_failing)) = (Inr (Device (js ''eth0'')), snd (getDevice (js ''eth0'') (snd (addConnection (fst (wiredTemplate (js ''shared'') (boot [] []))) wlan_failing))))
   \<and> activateConnection (Profile 0) (Device (js ''eth0'')) (snd (getDevice (js ''eth0'') (snd (addConnection (fst (wiredTemplate (js ''shared'') (boot [] []))) wlan_failing)))) = (Inl (DBusError (ActivateConnection (Profile 0) (Device (js ''eth0'')) Root_path)), snd (activateConnection (Profile 0) (Device (js ''eth0'')) (snd (getDevice (js ''eth0'') (snd (addConnection (fst (wiredTemplate (js ''shared'') (boot [] []))) wlan_failing))))))
   \<and> addWiredConnection (Some True) wlan_failing = (Inl (DBusError (ActivateConnection (Profile 0) (Device (js ''eth0'')) Root_path)), snd (activateConnection (Profile 0) (Device (js ''eth0'')) (snd (getDevice (js ''eth0'') (snd (addConnection (fst (wiredTemplate (js ''shared'') (boot [] []))) wlan_failing))))))
   \<and> profiles (snd (activateConnection (Profile 0) (Device (js ''eth0'')) (snd (getDevice (js ''eth0'') (snd (addConnection (fst (wiredTemplate (js ''shared'') (boot [] []))) wlan_failing)))))) = profiles wlan_failing @ [Profile 0]
   \<and> run Wireless add_failing = (Inr (), add_failing)
   \<and> addConnection (fst (wirelessTemplate (js ''shared'') (js ''myssid'') (Some (js ''mypsk'')) (boot [] []))) add_failing = (Inl (DBusError (GetProxyObject Settings_path)), snd (addConnection (fst (wirelessTemplate (js ''shared'') (js ''myssid'') (Some (js ''mypsk'')) (boot [] []))) add_failing))
   \<and> addWirelessConnection (Some (js ''myssid'')) (Some (js ''mypsk'')) (Some True) add_failing = (Inl (DBusError (GetProxyObject Settings_path)), snd (addConnection (fst (wirelessTemplate (js ''shared'') (js ''myssid'') (Some (js ''mypsk'')) (boot [] []))) add_failing))
   \<and> profiles (snd (addConnection (fst (wirelessTemplate (js ''shared'') (js ''myssid'') (Some (js ''mypsk'')) (boot [] []))) add_failing)) = profiles add_failing
   \<and> run Wireless leaking = (Inr (), leaking)
   \<and> addConnection (fst (wirelessTemplate (js ''shared'') (js ''myssid'') (Some (js ''mypsk'')) (boot [] []))) leaking = (Inr (Profile 0), snd (addConnection (fst (wirelessTemplate (js ''shared'') (js ''myssid'') (Some (js ''mypsk'')) (boot [] []))) leaking))
   \<and> getDevice (js ''wlan0'') (snd (addConnection (fst (wirelessTemplate (js ''shared'') (js ''myssid'') (Some (js ''mypsk'')) (boot [] []))) leaking)) = (Inl (DBusError (GetProxyObject Manager_path)), snd (getDevice (js ''wlan0'') (snd (addConnection (fst (wirelessTemplate (js ''shared'') (js ''myssid'') (Some (js ''mypsk'')) (boot [] []))) leaking))))
   \<and> addWirelessConnection (Some (js ''myssid'')) (Some (js ''mypsk'')) (Some True) leaking = (Inl (DBusError (GetProxyObject Manager_path)), snd (getDevice (js ''wlan0'') (snd (addConnection (fst (wirelessTemplate (js ''shared'') (js ''myssid'') (Some (js ''mypsk'')) (boot [] []))) leaking))))
   \<and> profiles (snd (getDevice (js ''wlan0'') (snd (addConnection (fst (wirelessTemplate (js ''shared'') (js ''myssid'') (Some (js ''mypsk'')) (boot [] []))) leaking)))) = profiles leaking @ [Profile 0]
   \<and> run Wireless wlan_failing = (Inr (), wlan_failing)
   \<and> addConnection (fst (wirelessTemplate (js ''shared'') (js ''myssid'') (Some (js ''mypsk'')) (boot [] []))) wlan_failing = (Inr (Profile 0), snd (addConnection (fst (wirelessTemplate (js ''shared'') (js ''myssid'') (Some (js ''mypsk'')) (boot [] []))) wlan_failing))
   \<and> getDevice (js ''wlan0'') (snd (addConnection (fst (wirelessTemplate (js ''shared'') (js ''myssid'') (Some (js ''mypsk'')) (boot [] []))) wlan_failing)) = (Inr (Device (js ''wlan0'')), snd (getDevice (js ''wlan0'') (snd (addConnection (fst (wirelessTemplate (js ''shared'') (js ''myssid'') (Some (js ''mypsk'')) (boot [] []))) wlan_failing))))
   \<and> activateConnection (Profile 0) (Device (js ''wlan0'')) (snd (getDevice (js ''wlan0'') (snd (addConnection (fst (wirelessTemplate (js ''shared'') (js ''myssid'') (Some (js ''mypsk'')) (boot [] []))) wlan_failing)))) = (Inl (DBusError (ActivateConnection (Profile 0) (Device (js ''wlan0'')) Root_path)), snd (activateConnection (Profile 0) (Device (js ''wlan0'')) (snd (getDevice (js ''wlan0'') (snd (addConnection (fst (wirelessTemplate (js ''shared'') (js ''myssid'') (Some (js ''mypsk'')) (boot [] []))) wlan_failing))))))
   \<and> addWirelessConnection (Some (js ''myssid'')) (Some (js ''mypsk'')) (Some True) wlan_failing = (Inl (DBusError (ActivateConnection (Profile 0) (Device (js ''wlan0'')) Root_path)), snd (activateConnection (Profile 0) (Device (js ''wlan0'')) (snd (getDevice (js ''wlan0'') (snd (addConnection (fst (wirelessTemplate (js ''shared'') (js ''myssid'') (Some (js ''mypsk'')) (boot [] []))) wlan_failing))))))
   \<and> profiles (snd (activateConnection (Profile 0) (Device (js ''wlan0'')) (snd (getDevice (js ''wlan0'') (snd (addConnection (fst (wirelessTemplate (js ''shared'') (js ''myssid'') (Some (js ''mypsk'')) (boot [] []))) wlan_failing)))))) = profiles wlan_failing @ [Profile 0]"
proof -
  let ?opts = "\<lparr>options_wired = Some (js ''eth0''), options_wireless = Some (js ''wlan0'')\<rparr>"
  have o_add_failing: "options add_failing = Some ?opts"
    and o_leaking: "options leaking = Some ?opts"
    and o_wlan_failing: "options wlan_failing = Some ?opts"
    by (simp_all add: add_failing_def leaking_def wlan_failing_def eval_defs)
  have oi_w: "options_wired ?opts = Some (js ''eth0'')"
    and oi_l: "options_wireless ?opts = Some (js ''wlan0'')"
    by simp_all
  have "fst (addConnection (fst (wiredTemplate (js ''shared'') (boot [] []))) add_failing) = Inl (DBusError (GetProxyObject Settings_path))"
    by (simp add: add_failing_def eval_defs)
  then have hw00: "addConnection (fst (wiredTemplate (js ''shared'') (boot [] []))) add_failing = (Inl (DBusError (GetProxyObject Settings_path)), snd (addConnection (fst (wiredTemplate (js ''shared'') (boot [] []))) add_failing))"
    by (simp add: prod_eq_iff)
  have rw0: "run Wired add_failing = (Inr (), add_failing)"
    by (rule run_Noop) (simp add: add_failing_def eval_defs)
  have tw0: "wiredTemplate (js (if True then ''shared'' else ''link-local'')) add_failing = (fst (wiredTemplate (js ''shared'') (boot [] [])), add_failing)"
    by (simp add: add_failing_def eval_defs)
  note cw0 = C4_failed_add_leaves_idle [where s = add_failing and opts = ?opts and iface = "js ''eth0''" and ?s1.0 = add_failing
      and nat_flag = True and d = "fst (wiredTemplate (js ''shared'') (boot [] []))" and ?s2.0 = add_failing
      and e = "DBusError (GetProxyObject Settings_path)"
      and s' = "snd (addConnection (fst (wiredTemplate (js ''shared'') (boot [] []))) add_failing)",
      THEN conjunct1, THEN mp, OF conjI [OF o_add_failing conjI [OF oi_w conjI [OF rw0 tw0]]], THEN conjunct1, THEN mp, OF hw00]
  have "fst (addConnection (fst (wiredTemplate (js ''shared'') (boot [] []))) leaking) = Inr (Profile 0)"
    by (simp add: leaking_def eval_defs)
  then have hw10: "addConnection (fst (wiredTemplate (js ''shared'') (boot [] []))) leaking = (Inr (Profile 0), snd (addConnection (fst (wiredTemplate (js ''shared'') (boot [] []))) leaking))"
    by (simp add: prod_eq_iff)
  have "fst (getDevice (js ''eth0'') (snd (addConnection (fst (wiredTemplate (js ''shared'') (boot [] []))) leaking))) = Inl (DBusError (GetProxyObject Manager_path))"
    by (simp add: leaking_def eval_defs)
  then have hw11: "getDevice (js ''eth0'') (snd (addConnection (fst (wiredTemplate (js ''shared'') (boot [] []))) leaking)) = (Inl (DBusError (GetProxyObject Manager_path)), snd (getDevice (js ''eth0'') (snd (addConnection (fst (wiredTemplate (js ''shared'') (boot [] []))) leaking))))"
    by (simp add: prod_eq_iff)
  have rw1: "run Wired leaking = (Inr (), leaking)"
    by (rule run_Noop) (simp add: leaking_def eval_defs)
  have tw1: "wiredTemplate (js (if True then ''shared'' else ''link-local'')) leaking = (fst (wiredTemplate (js ''shared'') (boot [] [])), leaking)"
    by (simp add: leaking_def eval_defs)
  note cw1 = C4_failed_add_leaves_idle [where s = leaking and opts = ?opts and iface = "js ''eth0''" and ?s1.0 = leaking
      and nat_flag = True and d = "fst (wiredTemplate (js ''shared'') (boot [] []))" and ?s2.0 = leaking
      and e = "DBusError (GetProxyObject Manager_path)"
      and s' = "snd (getDevice (js ''eth0'') (snd (addConnection (fst (wiredTemplate (js ''shared'') (boot [] []))) leaking)))" and conn = "Profile 0" and ?s3.0 = "snd (addConnection (fst (wiredTemplate (js ''shared'') (boot [] []))) leaking)",
      THEN conjunct1, THEN mp, OF conjI [OF o_leaking conjI [OF oi_w conjI [OF rw1 tw1]]], THEN conjunct2, THEN conjunct1, THEN mp, OF conjI [OF hw10 hw11]]
  have "fst (addConnection (fst (wiredTemplate (js ''shared'') (boot [] []))) wlan_failing) = Inr (Profile 0)"
    by (simp add: wlan_failing_def eval_defs)
  then have hw20: "addConnection (fst (wiredTemplate (js ''shared'') (boot [] []))) wlan_failing = (Inr (Profile 0), snd (addConnection (fst (wiredTemplate (js ''shared'') (boot [] []))) wlan_failing))"
    by (simp add: prod_eq_iff)
  have "fst (getDevice (js ''eth0'') (snd (addConnection (fst (wiredTemplate (js ''shared'') (boot [] []))) wlan_failing))) = Inr (Device (js ''eth0''))"
    by (simp add: wlan_failing_def eval_defs)
  then have hw21: "getDevice (js ''eth0'') (snd (addConnection (fst (wiredTemplate (js ''shared'') (boot [] []))) wlan_failing)) = (Inr (Device (js ''eth0'')), snd (getDevice (js ''eth0'') (snd (addConnection (fst (wiredTemplate (js ''shared'') (boot [] []))) wlan_failing))))"
    by (simp add: prod_eq_iff)
  have "fst (activateConnection (Profile 0) (Device (js ''eth0'')) (snd (getDevice (js ''eth0'') (snd (addConnection (fst (wiredTemplate (js ''shared'') (boot [] []))) wlan_failing))))) = Inl (DBusError (ActivateConnection (Profile 0) (Device (js ''eth0'')) Root_path))"
    by (simp add: wlan_failing_def eval_defs)
  then have hw22: "activateConnection (Profile 0) (Device (js ''eth0'')) (snd (getDevice (js ''eth0'') (snd (addConnection (fst (wiredTemplate (js ''shared'') (boot [] []))) wlan_failing)))) = (Inl (DBusError (ActivateConnection (Profile 0) (Device (js ''eth0'')) Root_path)), snd (activateConnection (Profile 0) (Device (js ''eth0'')) (snd (getDevice (js ''eth0'') (snd (addConnection (fst (wiredTemplate (js ''shared'') (boot [] []))) wlan_failing))))))"
    by (simp add: prod_eq_iff)
  have rw2: "run Wired wlan_failing = (Inr (), wlan_failing)"
    by (rule run_Noop) (simp add: wlan_failing_def eval_defs)
  have tw2: "wiredTemplate (js (if True then ''shared'' else ''link-local'')) wlan_failing = (fst (wiredTemplate (js ''shared'') (boot [] [])), wlan_failing)"
    by (simp add: wlan_failing_def eval_defs)
  note cw2 = C4_failed_add_leaves_idle [where s = wlan_failing and opts = ?opts and iface = "js ''eth0''" and ?s1.0 = wlan_failing
      and nat_flag = True and d = "fst (wiredTemplate (js ''shared'') (boot [] []))" and ?s2.0 = wlan_failing
      and e = "DBusError (ActivateConnection (Profile 0) (Device (js ''eth0'')) Root_path)"
      and s' = "snd (activateConnection (Profile 0) (Device (js ''eth0'')) (snd (getDevice (js ''eth0'') (snd (addConnection (fst (wiredTemplate (js ''shared'') (boot [] []))) wlan_failing)))))" and conn = "Profile 0" and ?s3.0 = "snd (addConnection (fst (wiredTemplate (js ''shared'') (boot [] []))) wlan_failing)" and dev = "Device (js ''eth0'')" and ?s4.0 = "snd (getDevice (js ''eth0'') (snd (addConnection (fst (wiredTemplate (js ''shared'') (boot [] []))) wlan_failing)))",
      THEN conjunct1, THEN mp, OF conjI [OF o_wlan_failing conjI [OF oi_w conjI [OF rw2 tw2]]], THEN conjunct2, THEN conjunct2, THEN mp, OF conjI [OF hw20 conjI [OF hw21 hw22]]]
  have "fst (addConnection (fst (wirelessTemplate (js ''shared'') (js ''myssid'') (Some (js ''mypsk'')) (boot [] []))) add_failing) = Inl (DBusError (GetProxyObject Settings_path))"
    by (simp add: add_failing_def eval_defs)
  then have hl00: "addConnection (fst (wirelessTemplate (js ''shared'') (js ''myssid'') (Some (js ''mypsk'')) (boot [] []))) add_failing = (Inl (DBusError (GetProxyObject Settings_path)), snd (addConnection (fst (wirelessTemplate (js ''shared'') (js ''myssid'') (Some (js ''mypsk'')) (boot [] []))) add_failing))"
    by (simp add: prod_eq_iff)
  have rl0: "run Wireless add_failing = (Inr (), add_failing)"
    by (rule run_Noop) (simp add: add_failing_def eval_defs)
  have tl0: "wirelessTemplate (js (if True then ''shared'' else ''link-local'')) (js ''myssid'') (Some (js ''mypsk'')) add_failing = (fst (wirelessTemplate (js ''shared'') (js ''myssid'') (Some (js ''mypsk'')) (boot [] [])), add_failing)"
    by (simp add: add_failing_def eval_defs)
  note cl0 = C4_failed_add_leaves_idle [where s = add_failing and opts = ?opts and iface = "js ''wlan0''" and ?s1.0 = add_failing
      and nat_flag = True and d = "fst (wirelessTemplate (js ''shared'') (js ''myssid'') (Some (js ''mypsk'')) (boot [] []))" and ?s2.0 = add_failing and ssid = "js ''myssid''" and psk = "js ''mypsk''"
      and e = "DBusError (GetProxyObject Settings_path)"
      and s' = "snd (addConnection (fst (wirelessTemplate (js ''shared'') (js ''myssid'') (Some (js ''mypsk'')) (boot [] []))) add_failing)",
      THEN conjunct2, THEN mp, OF conjI [OF o_add_failing conjI [OF oi_l conjI [OF rl0 tl0]]], THEN conjunct1, THEN mp, OF hl00]
  have "fst (addConnection (fst (wirelessTemplate (js ''shared'') (js ''myssid'') (Some (js ''mypsk'')) (boot [] []))) leaking) = Inr (Profile 0)"
    by (simp add: leaking_def eval_defs)
  then have hl10: "addConnection (fst (wirelessTemplate (js ''shared'') (js ''myssid'') (Some (js ''mypsk'')) (boot [] []))) leaking = (Inr (Profile 0), snd (addConnection (fst (wirelessTemplate (js ''shared'') (js ''myssid'') (Some (js ''mypsk'')) (boot [] []))) leaking))"
    by (simp add: prod_eq_iff)
  have "fst (getDevice (js ''wlan0'') (snd (addConnection (fst (wirelessTemplate (js ''shared'') (js ''myssid'') (Some (js ''mypsk'')) (boot [] []))) leaking))) = Inl (DBusError (GetProxyObject Manager_path))"
    by (simp add: leaking_def eval_defs)
  then have hl11: "getDevice (js ''wlan0'') (snd (addConnection (fst (wirelessTemplate (js ''shared'') (js ''myssid'') (Some (js ''mypsk'')) (boot [] []))) leaking)) = (Inl (DBusError (GetProxyObject Manager_path)), snd (getDevice (js ''wlan0'') (snd (addConnection (fst (wirelessTemplate (js ''shared'') (js ''myssid'') (Some (js ''mypsk'')) (boot [] []))) leaking))))"
    by (simp add: prod_eq_iff)
  have rl1: "run Wireless leaking = (Inr (), leaking)"
    by (rule run_Noop) (simp add: leaking_def eval_defs)
  have tl1: "wirelessTemplate (js (if True then ''shared'' else ''link-local'')) (js ''myssid'') (Some (js ''mypsk'')) leaking = (fst (wirelessTemplate (js ''shared'') (js ''myssid'') (Some (js ''mypsk'')) (boot [] [])), leaking)"
    by (simp add: leaking_def eval_defs)
  note cl1 = C4_failed_add_leaves_idle [where s = leaking and opts = ?opts and iface = "js ''wlan0''" and ?s1.0 = leaking
      and nat_flag = True and d = "fst (wirelessTemplate (js ''shared'') (js ''myssid'') (Some (js ''mypsk'')) (boot [] []))" and ?s2.0 = leaking and ssid = "js ''myssid''" and psk = "js ''mypsk''"
      and e = "DBusError (GetProxyObject Manager_path)"
      and s' = "snd (getDevice (js ''wlan0'') (snd (addConnection (fst (wirelessTemplate (js ''shared'') (js ''myssid'') (Some (js ''mypsk'')) (boot [] []))) leaking)))" and conn = "Profile 0" and ?s3.0 = "snd (addConnection (fst (wirelessTemplate (js ''shared'') (js ''myssid'') (Some (js ''mypsk'')) (boot [] []))) leaking)",
      THEN conjunct2, THEN mp, OF conjI [OF o_leaking conjI [OF oi_l conjI [OF rl1 tl1]]], THEN conjunct2, THEN conjunct1, THEN mp, OF conjI [OF hl10 hl11]]
  have "fst (addConnection (fst (wirelessTemplate (js ''shared'') (js ''myssid'') (Some (js ''mypsk'')) (boot [] []))) wlan_failing) = Inr (Profile 0)"
    by (simp add: wlan_failing_def eval_defs)
  then have hl20: "addConnection (fst (wirelessTemplate (js ''shared'') (js ''myssid'') (Some (js ''mypsk'')) (boot [] []))) wlan_failing = (Inr (Profile 0), snd (addConnection (fst (wirelessTemplate (js ''shared'') (js ''myssid'') (Some (js ''mypsk'')) (boot [] []))) wlan_failing))"
    by (simp add: prod_eq_iff)
  have "fst (getDevice (js ''wlan0'') (snd (addConnection (fst (wirelessTemplate (js ''shared'') (js ''myssid'') (Some (js ''mypsk'')) (boot [] []))) wlan_failing))) = Inr (Device (js ''wlan0''))"
    by (simp add: wlan_failing_def eval_defs)
  then have hl21: "getDevice (js ''wlan0'') (snd (addConnection (fst (wirelessTemplate (js ''shared'') (js ''myssid'') (Some (js ''mypsk'')) (boot [] []))) wlan_failing)) = (Inr (Device (js ''wlan0'')), snd (getDevice (js ''wlan0'') (snd (addConnection (fst (wirelessTemplate (js ''shared'') (js ''myssid'') (Some (js ''mypsk'')) (boot [] []))) wlan_failing))))"
    by (simp add: prod_eq_iff)
  have "fst (activateConnection (Profile 0) (Device (js ''wlan0'')) (snd (getDevice (js ''wlan0'') (snd (addConnection (fst (wirelessTemplate (js ''shared'') (js ''myssid'') (Some (js ''mypsk'')) (boot [] []))) wlan_failing))))) = Inl (DBusError (ActivateConnection (Profile 0) (Device (js ''wlan0'')) Root_path))"
    by (simp add: wlan_failing_def eval_defs)
  then have hl22: "activateConnection (Profile 0) (Device (js ''wlan0'')) (snd (getDevice (js ''wlan0'') (snd (addConnection (fst (wirelessTemplate (js ''shared'') (js ''myssid'') (Some (js ''mypsk'')) (boot [] []))) wlan_failing)))) = (Inl (DBusError (ActivateConnection (Profile 0) (Device (js ''wlan0'')) Root_path)), snd (activateConnection (Profile 0) (Device (js ''wlan0'')) (snd (getDevice (js ''wlan0'') (snd (addConnection (fst (wirelessTemplate (js ''shared'') (js ''myssid'') (Some (js ''mypsk'')) (boot [] []))) wlan_failing))))))"
    by (simp add: prod_eq_iff)
  have rl2: "run Wireless wlan_failing = (Inr (), wlan_failing)"
    by (rule run_Noop) (simp add: wlan_failing_def eval_defs)
  have tl2: "wirelessTemplate (js (if True then ''shared'' else ''link-local'')) (js ''myssid'') (Some (js ''mypsk'')) wlan_failing = (fst (wirelessTemplate (js ''shared'') (js ''myssid'') (Some (js ''mypsk'')) (boot [] [])), wlan_failing)"
    by (simp add: wlan_failing_def eval_defs)
  note cl2 = C4_failed_add_leaves_idle [where s = wlan_failing and opts = ?opts and iface = "js ''wlan0''" and ?s1.0 = wlan_failing
      and nat_flag = True and d = "fst (wirelessTemplate (js ''shared'') (js ''myssid'') (Some (js ''mypsk'')) (boot [] []))" and ?s2.0 = wlan_failing and ssid = "js ''myssid''" and psk = "js ''mypsk''"
      and e = "DBusError (ActivateConnection (Profile 0) (Device (js ''wlan0'')) Root_path)"
      and s' = "snd (activateConnection (Profile 0) (Device (js ''wlan0'')) (snd (getDevice (js ''wlan0'') (snd (addConnection (fst (wirelessTemplate (js ''shared'') (js ''myssid'') (Some (js ''mypsk'')) (boot [] []))) wlan_failing)))))" and conn = "Profile 0" and ?s3.0 = "snd (addConnection (fst (wirelessTemplate (js ''shared'') (js ''myssid'') (Some (js ''mypsk'')) (boot [] []))) wlan_failing)" and dev = "Device (js ''wlan0'')" and ?s4.0 = "snd (getDevice (js ''wlan0'') (snd (addConnection (fst (wirelessTemplate (js ''shared'') (js ''myssid'') (Some (js ''mypsk'')) (boot [] []))) wlan_failing)))",
      THEN conjunct2, THEN mp, OF conjI [OF o_wlan_failing conjI [OF oi_l conjI [OF rl2 tl2]]], THEN conjunct2, THEN conjunct2, THEN mp, OF conjI [OF hl20 conjI [OF hl21 hl22]]]
  from rw0 hw00 cw0 rw1 hw10 hw11 cw1 rw2 hw20 hw21 hw22 cw2 rl0 hl00 cl0 rl1 hl10 hl11 cl1 rl2 hl20 hl21 hl22 cl2
  show ?thesis
    by (intro conjI) (erule conjE | assumption)+
qed

text \<open>
  Claim C5: when the static configuration of the Mode is absent, or a required dynamic
  parameter is missing (\<^verbatim>\<open>nat\<close> for wired; \<^verbatim>\<open>ssid\<close>, \<^verbatim>\<open>psk\<close> or \<^verbatim>\<open>nat\<close> for wireless), the
  call raises a configuration error and leaves the whole state as it was: no request was
  sent over the bus and no Teardown Action was run.  The error is
  \<^verbatim>\<open>new Error('... unconfigured')\<close> in the first case and
  \<^verbatim>\<open>new Error('... configuration incomplete')\<close> in the second.
\<close>

theorem C5_validation_before_bus:
  "(options s = None \<or> (\<exists>opts. options s = Some opts \<and> options_wired opts = None) \<longrightarrow>
      addWiredConnection nat_opt s = (Inl (Error ''Wired AP unconfigured''), s))
   \<and> ((\<exists>opts iface. options s = Some opts \<and> options_wired opts = Some iface) \<and> nat_opt = None \<longrightarrow>
      addWiredConnection nat_opt s = (Inl (Error ''Wired configuration incomplete''), s))
   \<and> (options s = None \<or> (\<exists>opts. options s = Some opts \<and> options_wireless opts = None) \<longrightarrow>
      addWirelessConnection ssid_opt psk_opt nat_opt' s =
        (Inl (Error ''Wireless AP unconfigured''), s))
   \<and> ((\<exists>opts iface. options s = Some opts \<and> options_wireless opts = Some iface)
        \<and> (ssid_opt = None \<or> psk_opt = None \<or> nat_opt' = None) \<longrightarrow>
      addWirelessConnection ssid_opt psk_opt nat_opt' s =
        (Inl (Error ''Wireless configuration incomplete''), s))"
  by (auto simp: addWiredConnection_def addWirelessConnection_def reject_def
      split: option.splits)

theorem C5_validation_before_bus_witness:
  "options (boot [] []) = None
   \<and> addWiredConnection (Some True) (boot [] []) =
        (Inl (Error ''Wired AP unconfigured''), boot [] [])
   \<and> addWiredConnection None (wired_up []) =
        (Inl (Error ''Wired configuration incomplete''), wired_up [])
   \<and> addWirelessConnection (Some (js ''myssid'')) (Some (js ''mypsk'')) (Some True) (boot [] []) =
        (Inl (Error ''Wireless AP unconfigured''), boot [] [])
   \<and> addWirelessConnection (Some (js ''myssid'')) None (Some True) (wired_up []) =
        (Inl (Error ''Wireless configuration incomplete''), wired_up [])"
proof -
  have a: "options (boot [] []) = None" by (simp add: boot_def)
  have b: "options (wired_up []) = eth0_wlan0" by (simp add: wired_up_eq)
  show ?thesis
    using C5_validation_before_bus [of "boot [] []" "Some True" "Some (js ''myssid'')" "Some (js ''mypsk'')"
        "Some True"]
      C5_validation_before_bus [of "wired_up []" None "Some (js ''myssid'')" None "Some True"] a b
    by (simp add: eth0_wlan0_def)
qed

text \<open>
  Claim C6, as stated: the wireless builder embeds the WPA-PSK block if and only if a PSK
  was supplied, and leaves the block out when \<^verbatim>\<open>psk\<close> is omitted.  It fails: with \<^verbatim>\<open>psk\<close>
  omitted the descriptor still has the block, its \<^verbatim>\<open>psk\<close> holding \<^verbatim>\<open>undefined\<close>.
\<close>

theorem C6_security_block_without_psk:
  "map_of (fst (wirelessTemplate (js ''shared'') (js ''myssid'') None (boot [] [])))
     ''802-11-wireless-security'' =
   Some [(''key-mgmt'', Variant ''s'' (JString (js ''wpa-psk''))),
         (''psk'', Variant ''s'' JUndefined)]"
  by (simp add: wirelessTemplate_def split: prod.splits)

text \<open>
  Claim C6, amended: for every method, SSID and PSK argument, supplied or not, the
  descriptor has the security block, with key management \<^verbatim>\<open>wpa-psk\<close> and the PSK argument
  as it was given.
\<close>

theorem C6_security_block_always:
  "map_of (fst (wirelessTemplate method ssid psk s)) ''802-11-wireless-security'' =
     Some [(''key-mgmt'', Variant ''s'' (JString (js ''wpa-psk''))),
           (''psk'', Variant ''s'' (case psk of None \<Rightarrow> JUndefined | Some p \<Rightarrow> JString p))]"
  by (simp add: wirelessTemplate_def split: prod.splits)

text \<open>
  Claim C7: \<^verbatim>\<open>removeConnection\<close> deletes the profile if and only if the reference is among
  the enumerated profiles, \<^verbatim>\<open>deactivateConnection\<close> deactivates if and only if the reference
  is among the active connections, and a stale reference is a silent no-op.  For each of the
  two: the request is sent only if the reference is enumerated; when the enumeration is
  answered and the reference is not there, the call returns normally having sent nothing
  else; when the bus rejects nothing and the reference is there, the call returns normally,
  has sent the request, and the object is gone.
\<close>

theorem C7_guarded_removal:
  "(Delete r \<in> set (sent s (snd (removeConnection r s))) \<longrightarrow> r \<in> set (profiles s))
   \<and> (\<not> rejects s \<and> r \<notin> set (profiles s) \<longrightarrow>
        removeConnection r s =
          (Inr (), s\<lparr>calls := calls s @ [GetProxyObject Settings_path],
                      faults := tl (faults s)\<rparr>))
   \<and> (quiet s \<and> r \<in> set (profiles s) \<longrightarrow>
        (\<exists>s'. removeConnection r s = (Inr (), s') \<and> Delete r \<in> set (sent s s')
              \<and> r \<notin> set (profiles s') \<and> actives s' = actives s))
   \<and> (DeactivateConnection a \<in> set (sent s (snd (deactivateConnection a s))) \<longrightarrow>
        a \<in> set (actives s))
   \<and> (\<not> rejects s \<and> a \<notin> set (actives s) \<longrightarrow>
        deactivateConnection a s =
          (Inr (), s\<lparr>calls := calls s @ [GetProxyObject ActiveConnection_path],
                      faults := tl (faults s)\<rparr>))
   \<and> (quiet s \<and> a \<in> set (actives s) \<longrightarrow>
        (\<exists>s'. deactivateConnection a s = (Inr (), s')
              \<and> DeactivateConnection a \<in> set (sent s s')
              \<and> a \<notin> set (actives s') \<and> profiles s' = profiles s))"
proof (intro conjI impI)
  show "r \<in> set (profiles s)" if "Delete r \<in> set (sent s (snd (removeConnection r s)))"
    using that removeConnection_service(5) [of r s "fst (removeConnection r s)"
        "snd (removeConnection r s)"] by simp
  show "a \<in> set (actives s)"
    if "DeactivateConnection a \<in> set (sent s (snd (deactivateConnection a s)))"
    using that deactivateConnection_service(5) [of a s "fst (deactivateConnection a s)"
        "snd (deactivateConnection a s)"] by simp
  show "removeConnection r s =
          (Inr (), s\<lparr>calls := calls s @ [GetProxyObject Settings_path],
                      faults := tl (faults s)\<rparr>)"
    if "\<not> rejects s \<and> r \<notin> set (profiles s)"
    using that by (simp add: removeConnection_def getProxyObject_answered await_def resolve_def)
  show "deactivateConnection a s =
          (Inr (), s\<lparr>calls := calls s @ [GetProxyObject ActiveConnection_path],
                      faults := tl (faults s)\<rparr>)"
    if "\<not> rejects s \<and> a \<notin> set (actives s)"
    using that by (simp add: deactivateConnection_def getProxyObject_answered await_def resolve_def)
  show "\<exists>s'. removeConnection r s = (Inr (), s') \<and> Delete r \<in> set (sent s s')
              \<and> r \<notin> set (profiles s') \<and> actives s' = actives s"
    if h: "quiet s \<and> r \<in> set (profiles s)"
  proof -
    from h removeConnection_quiet [of s r]
    obtain s' where s': "removeConnection r s = (Inr (), s')"
      "profiles s' = removeAll r (profiles s)"
      "sent s s' = [GetProxyObject Settings_path, GetProxyObject r, Delete r]"
      by auto
    with removeConnection_service(1) [OF s'(1)] show ?thesis by simp
  qed
  show "\<exists>s'. deactivateConnection a s = (Inr (), s')
              \<and> DeactivateConnection a \<in> set (sent s s')
              \<and> a \<notin> set (actives s') \<and> profiles s' = profiles s"
    if h: "quiet s \<and> a \<in> set (actives s)"
  proof -
    from h deactivateConnection_quiet [of s a]
    obtain s' where s': "deactivateConnection a s = (Inr (), s')"
      "actives s' = removeAll a (actives s)"
      "sent s s' = [GetProxyObject ActiveConnection_path, GetProxyObject Manager_path,
                    DeactivateConnection a]"
      by auto
    with deactivateConnection_service(1) [OF s'(1)] show ?thesis by simp
  qed
qed

theorem C7_guarded_removal_witness:
  "\<not> rejects (wired_up []) \<and> quiet (wired_up [])
   \<and> Profile 7 \<notin> set (profiles (wired_up []))
   \<and> removeConnection (Profile 7) (wired_up []) =
       (Inr (), (wired_up [])\<lparr>calls := calls (wired_up []) @ [GetProxyObject Settings_path],
                               faults := tl (faults (wired_up []))\<rparr>)
   \<and> Profile 0 \<in> set (profiles (wired_up []))
   \<and> (\<exists>s'. removeConnection (Profile 0) (wired_up []) = (Inr (), s')
          \<and> Delete (Profile 0) \<in> set (sent (wired_up []) s')
          \<and> Profile 0 \<notin> set (profiles s') \<and> actives s' = actives (wired_up []))
   \<and> Active 7 \<notin> set (actives (wired_up []))
   \<and> deactivateConnection (Active 7) (wired_up []) =
       (Inr (), (wired_up [])\<lparr>calls := calls (wired_up []) @ [GetProxyObject ActiveConnection_path],
                               faults := tl (faults (wired_up []))\<rparr>)
   \<and> Active 1 \<in> set (actives (wired_up []))
   \<and> (\<exists>s'. deactivateConnection (Active 1) (wired_up []) = (Inr (), s')
          \<and> DeactivateConnection (Active 1) \<in> set (sent (wired_up []) s')
          \<and> Active 1 \<notin> set (actives s') \<and> profiles s' = profiles (wired_up []))"
proof -
  have f: "\<not> rejects (wired_up [])" "quiet (wired_up [])"
    "profiles (wired_up []) = [Profile 0]" "actives (wired_up []) = [Active 1]"
    by (simp_all add: wired_up_eq rejects_def quiet_def)
  show ?thesis
    using C7_guarded_removal [of "Profile 7" "wired_up []" "Active 7"]
      C7_guarded_removal [of "Profile 0" "wired_up []" "Active 1"] f
    by simp
qed



text \<open>
  Claim C9: the SSID field of the wireless descriptor is the byte sequence of the SSID's
  characters, for every SSID.  \<^verbatim>\<open>stringToArrayOfBytes\<close> collects \<^verbatim>\<open>charCodeAt\<close>, the UTF-16
  code units (lemma \<open>stringToArrayOfBytes_eq\<close>), which are bytes for characters below
  U+0100 only (lemma \<open>stringToArrayOfBytes_latin1\<close>; lemma \<open>wirelessTemplate_example\<close> is the
  descriptor of \<^verbatim>\<open>'shared'\<close>, \<^verbatim>\<open>'myssid'\<close>, \<^verbatim>\<open>'mypsk'\<close>).  For the one-character SSID
  U+20AC the field, of D-Bus type \<^verbatim>\<open>ay\<close>, holds the number 8364, which is no byte.
\<close>

theorem C9_ssid_code_unit_not_byte:
  "setting (fst (wirelessTemplate (js ''shared'') [0x20AC] (Some (js ''mypsk'')) (boot [] [])))
      ''802-11-wireless'' ''ssid'' = Some (Variant ''ay'' (JArray [8364]))
   \<and> \<not> (8364 :: nat) < 256"
  by (simp add: setting_def wirelessTemplate_def stringToArrayOfBytes_eq split: prod.splits)

text \<open>
  Claim C10: \<^verbatim>\<open>addWirelessConnection\<close> requires \<^verbatim>\<open>psk\<close>.  A call without it raises and leaves
  the whole state as it was; and every settings object a call registers with the service
  carries the WPA-PSK block with the PSK of that call.
\<close>

theorem C10_psk_required:
  "(psk_opt = None \<longrightarrow>
      (\<exists>msg. addWirelessConnection ssid_opt psk_opt nat_opt s = (Inl (Error msg), s)))
   \<and> (AddConnectionUnsaved d \<in> set (sent s (snd (addWirelessConnection ssid_opt psk_opt nat_opt s)))
        \<longrightarrow> (\<exists>p. psk_opt = Some p \<and> secured p d))"
proof (rule conjI; rule impI)
  assume "psk_opt = None"
  then show "\<exists>msg. addWirelessConnection ssid_opt psk_opt nat_opt s = (Inl (Error msg), s)"
    by (auto simp: addWirelessConnection_def reject_def split: option.splits)
next
  let ?s' = "snd (addWirelessConnection ssid_opt psk_opt nat_opt s)"
  assume a: "AddConnectionUnsaved d \<in> set (sent s ?s')"
  have changed: "?s' \<noteq> s"
    using a by (auto simp: sent_def)
  obtain opts iface ssid p nat_flag where v: "options s = Some opts"
    "options_wireless opts = Some iface" "ssid_opt = Some ssid" "psk_opt = Some p"
    "nat_opt = Some nat_flag"
  proof (cases ssid_opt psk_opt nat_opt s rule: addWirelessConnection_cases)
    case (invalid msg)
    with changed show ?thesis by simp
  next
    case (valid opts iface ssid psk nat_flag)
    then show ?thesis by (rule that)
  qed
  let ?P = "\<lambda>c. \<forall>d'. c = AddConnectionUnsaved d' \<longrightarrow> secured p d'"
  let ?t = "wirelessTemplate (js (if nat_flag then ''shared'' else ''link-local'')) ssid (Some p)"
  let ?est = "establish Wireless ?t iface (js ''Wireless AP; SSID: '' @ ssid @ js '' IFACE: '' @ iface)"
  obtain res s1 where r: "run Wireless s = (res, s1)" by (cases "run Wireless s")
  have r1: "requests ?P s s1"
    using r by (rule run_requests) simp_all
  have "requests ?P s ?s'"
  proof (cases res)
    case (Inl e)
    with r have "addWirelessConnection ssid_opt psk_opt nat_opt s = (Inl e, s1)"
      by (simp add: v addWirelessConnection_steps [OF v(1,2)] await_rejected)
    with r1 show ?thesis by simp
  next
    case (Inr x)
    with r have r': "run Wireless s = (Inr (), s1)" by simp
    have eq: "addWirelessConnection ssid_opt psk_opt nat_opt s = ?est s1"
      by (simp only: v(3,4,5) addWirelessConnection_after_run [OF v(1,2) r'])
    obtain d0 s2 where d0: "?t s1 = (d0, s2)" by (cases "?t s1")
    then have "d0 = fst (?t s1)" by simp
    then have sec: "secured p d0" by (simp only: wirelessTemplate_secured)
    have e: "?est s1 = (fst (?est s1), snd (?est s1))" by simp
    have r2: "requests ?P s1 (snd (?est s1))"
      by (rule establish_requests [OF e wirelessTemplate_like d0]) (simp_all add: sec)
    from r1 r2 have "requests ?P s (snd (?est s1))" by (rule requests_trans)
    then show ?thesis by (simp only: eq)
  qed
  with a have "secured p d"
    by (auto simp: requests_def list_all_iff)
  with v(4) show "\<exists>p. psk_opt = Some p \<and> secured p d" by simp
qed

theorem C10_psk_required_witness:
  "(\<exists>msg. addWirelessConnection (Some (js ''myssid'')) None (Some True) (wired_up []) =
            (Inl (Error msg), wired_up []))
   \<and> AddConnectionUnsaved
        (fst (wirelessTemplate (js ''shared'') (js ''myssid'') (Some (js ''mypsk'')) (boot [] [])))
      \<in> set (sent (wired_up (replicate 6 False))
               (snd (addWirelessConnection (Some (js ''myssid'')) (Some (js ''mypsk''))
                       (Some True) (wired_up (replicate 6 False)))))
   \<and> secured (js ''mypsk'')
        (fst (wirelessTemplate (js ''shared'') (js ''myssid'') (Some (js ''mypsk'')) (boot [] [])))"
proof -
  have a: "AddConnectionUnsaved
        (fst (wirelessTemplate (js ''shared'') (js ''myssid'') (Some (js ''mypsk'')) (boot [] [])))
      \<in> set (sent (wired_up (replicate 6 False))
               (snd (addWirelessConnection (Some (js ''myssid'')) (Some (js ''mypsk''))
                       (Some True) (wired_up (replicate 6 False)))))"
    using both_up_eq [of "[]"]
    by (simp add: both_up_def sent_def wired_up_eq)
  show ?thesis
    using C10_psk_required [of None "Some (js ''myssid'')" "Some True" "wired_up []"]
      C10_psk_required [of "Some (js ''mypsk'')" "Some (js ''myssid'')" "Some True"
        "wired_up (replicate 6 False)"
        "fst (wirelessTemplate (js ''shared'') (js ''myssid'') (Some (js ''mypsk''))
               (boot [] []))"] a
    by simp
qed

end
